theory Spec2Isabelle
  imports Main
begin

text \<open>
  A model of the Koishi plugin \<^verbatim>\<open>prism-neo\<close>: the request URLs of \<^verbatim>\<open>service.ts\<close>, and of
  \<^verbatim>\<open>index.ts\<close> the billing and wallet reports, the target user of a command, the logout
  command with its confirmation store, and the wrapper that turns what a handler throws
  into a reply.  A handler is a function from the state (the store and the trace of
  what has been done) to its result, a string or the thrown value, and the new state.
  The remote service, the permission check and the clock are inputs of the model.
\<close>

section \<open>JavaScript values used by the plugin\<close>

text \<open>
  A JavaScript string is modelled as the list of bytes of its UTF-8 encoding, so the
  Chinese literals of the source are byte lists (each is given with its code points).
  \<open>undefined\<close> and \<open>null\<close> are \<open>None\<close>.  Numbers are the integral amounts and
  millisecond time stamps the remote service sends, modelled as \<open>int\<close>.  The answers
  of the remote service have the types \<^verbatim>\<open>model.ts\<close> declares, with valid dates.
\<close>

definition NL :: string where \<comment> \<open>the line feed of \<^verbatim>\<open>'\n'\<close>\<close>
  "NL = [CHR 0x0A]"

text \<open>\<^verbatim>\<open>Array.prototype.join\<close>\<close>

fun join :: "string \<Rightarrow> string list \<Rightarrow> string" where
  "join sep [] = []"
| "join sep [x] = x"
| "join sep (x # y # ys) = x @ sep @ join sep (y # ys)"

text \<open>A number inside a template literal: the decimal digits, with a minus sign.\<close>

fun show_nat :: "nat \<Rightarrow> string" where
  "show_nat n =
     (if n < 10 then [''0123456789'' ! n]
      else show_nat (n div 10) @ [''0123456789'' ! (n mod 10)])"

declare show_nat.simps [simp del]

definition show_int :: "int \<Rightarrow> string" where
  "show_int i = (if i < 0 then ''-'' @ show_nat (nat (- i)) else show_nat (nat i))"

text \<open>\<^verbatim>\<open>n.toString().padStart(2, '0')\<close>\<close>

definition padStart2 :: "string \<Rightarrow> string" where
  "padStart2 s = replicate (2 - length s) (CHR ''0'') @ s"

text \<open>
  The truth value of a string (\<^verbatim>\<open>if (user)\<close>, \<open>if (apiMessage)\<close>) and of a number
  (\<^verbatim>\<open>if (res.session.costOverwrite)\<close>, \<^verbatim>\<open>pendingLogout && ...\<close>): an absent value, the empty
  string and the number 0 are false.
\<close>

fun truthy_str :: "string option \<Rightarrow> bool" where
  "truthy_str None = False"
| "truthy_str (Some s) = (s \<noteq> [])"

fun truthy_num :: "int option \<Rightarrow> bool" where
  "truthy_num None = False"
| "truthy_num (Some n) = (n \<noteq> 0)"

text \<open>A value inside a template literal: \<^verbatim>\<open>undefined\<close> prints as its name.\<close>

fun show_str :: "string option \<Rightarrow> string" where
  "show_str None = ''undefined''"
| "show_str (Some s) = s"

text \<open>\<^verbatim>\<open>s.split(sep)\<close> for a separator of one character, and \<^verbatim>\<open>xs[i]\<close>.\<close>

fun split :: "char \<Rightarrow> string \<Rightarrow> string list" where
  "split sep [] = [[]]"
| "split sep (c # cs) =
     (if c = sep then [] # split sep cs
      else (case split sep cs of [] \<Rightarrow> [[c]] | x # xs \<Rightarrow> (c # x) # xs))"

definition index :: "'a list \<Rightarrow> nat \<Rightarrow> 'a option" where
  "index xs i = (if i < length xs then Some (xs ! i) else None)"

subsection \<open>White space and \<^verbatim>\<open>trimStart\<close>, \<^verbatim>\<open>trimEnd\<close>\<close>

text \<open>
  The white space and line terminator code points of ECMAScript, UTF-8 encoded:
  U+0009 to U+000D, U+0020, U+00A0, U+1680, U+2000 to U+200A, U+2028, U+2029, U+202F,
  U+205F, U+3000 and U+FEFF.
\<close>

definition white_space :: "string list" where
  "white_space =
     [[CHR 0x09], [CHR 0x0A], [CHR 0x0B], [CHR 0x0C], [CHR 0x0D], [CHR 0x20],
      [CHR 0xC2, CHR 0xA0], [CHR 0xE1, CHR 0x9A, CHR 0x80],
      [CHR 0xE2, CHR 0x80, CHR 0x80], [CHR 0xE2, CHR 0x80, CHR 0x81],
      [CHR 0xE2, CHR 0x80, CHR 0x82], [CHR 0xE2, CHR 0x80, CHR 0x83],
      [CHR 0xE2, CHR 0x80, CHR 0x84], [CHR 0xE2, CHR 0x80, CHR 0x85],
      [CHR 0xE2, CHR 0x80, CHR 0x86], [CHR 0xE2, CHR 0x80, CHR 0x87],
      [CHR 0xE2, CHR 0x80, CHR 0x88], [CHR 0xE2, CHR 0x80, CHR 0x89],
      [CHR 0xE2, CHR 0x80, CHR 0x8A], [CHR 0xE2, CHR 0x80, CHR 0xA8],
      [CHR 0xE2, CHR 0x80, CHR 0xA9], [CHR 0xE2, CHR 0x80, CHR 0xAF],
      [CHR 0xE2, CHR 0x81, CHR 0x9F], [CHR 0xE3, CHR 0x80, CHR 0x80],
      [CHR 0xEF, CHR 0xBB, CHR 0xBF]]"

text \<open>The number of bytes of the white space character a string starts (ends) with, or 0.\<close>

definition leading_ws :: "string \<Rightarrow> nat" where
  "leading_ws s =
     (case filter (\<lambda>w. take (length w) s = w) white_space of
        [] \<Rightarrow> 0 | w # _ \<Rightarrow> length w)"

definition trailing_ws :: "string \<Rightarrow> nat" where
  "trailing_ws s =
     (case filter (\<lambda>w. drop (length s - length w) s = w) white_space of
        [] \<Rightarrow> 0 | w # _ \<Rightarrow> length w)"

lemma leading_ws_le: "leading_ws s \<le> length s"
proof (cases "filter (\<lambda>w. take (length w) s = w) white_space")
  case Nil
  then show ?thesis by (simp add: leading_ws_def)
next
  case (Cons w ws)
  then have "w \<in> set (filter (\<lambda>w. take (length w) s = w) white_space)" by simp
  then have "take (length w) s = w" by simp
  then have "length w \<le> length s"
    by (metis length_take min.cobounded1)
  with Cons show ?thesis by (simp add: leading_ws_def)
qed

lemma trailing_ws_le: "trailing_ws s \<le> length s"
proof (cases "filter (\<lambda>w. drop (length s - length w) s = w) white_space")
  case Nil
  then show ?thesis by (simp add: trailing_ws_def)
next
  case (Cons w ws)
  then have "w \<in> set (filter (\<lambda>w. drop (length s - length w) s = w) white_space)" by simp
  then have "drop (length s - length w) s = w" by simp
  then have "length w \<le> length s"
    by (metis length_drop diff_le_self)
  with Cons show ?thesis by (simp add: trailing_ws_def)
qed

function trimStart :: "string \<Rightarrow> string" where
  "trimStart s = (if leading_ws s = 0 then s else trimStart (drop (leading_ws s) s))"
  by pat_completeness auto
termination
proof (relation "measure length")
  show "wf (measure length)" by simp
next
  fix s :: string
  assume "leading_ws s \<noteq> 0"
  moreover have "leading_ws s \<le> length s" by (rule leading_ws_le)
  ultimately show "(drop (leading_ws s) s, s) \<in> measure length" by simp
qed

function trimEnd :: "string \<Rightarrow> string" where
  "trimEnd s = (if trailing_ws s = 0 then s else trimEnd (take (length s - trailing_ws s) s))"
  by pat_completeness auto
termination
proof (relation "measure length")
  show "wf (measure length)" by simp
next
  fix s :: string
  assume "trailing_ws s \<noteq> 0"
  moreover have "trailing_ws s \<le> length s" by (rule trailing_ws_le)
  ultimately show "(take (length s - trailing_ws s) s, s) \<in> measure length" by simp
qed

declare trimStart.simps [simp del] trimEnd.simps [simp del]

section \<open>service.ts: request URLs\<close>

text \<open>
  \<^verbatim>\<open>s.replace(/\/+$/, "")\<close> removes the run of slashes the string ends with and
  \<^verbatim>\<open>s.replace(/^\/+/, "")\<close> the run it starts with.
\<close>

definition strip_trailing_slashes :: "string \<Rightarrow> string" where
  "strip_trailing_slashes s = rev (dropWhile (\<lambda>c. c = CHR ''/'') (rev s))"

definition strip_leading_slashes :: "string \<Rightarrow> string" where
  "strip_leading_slashes s = dropWhile (\<lambda>c. c = CHR ''/'') s"

definition makeUrl :: "string \<Rightarrow> string \<Rightarrow> string" where
  "makeUrl baseUrl endpoint =
     strip_trailing_slashes (trimEnd baseUrl) @ ''/api/'' @
     strip_leading_slashes (trimStart endpoint)"

section \<open>model.ts: the data the remote service returns\<close>

text \<open>
  A \<^verbatim>\<open>Date\<close> object (\<^verbatim>\<open>new Date(str)\<close> of an ISO string of the service) is the
  record of what its getters return: the epoch milliseconds and the calendar fields in
  the local time zone.  \<open>getMonth\<close> counts from 0, as in JavaScript.
\<close>

record date =
  getTime :: int
  getFullYear :: int
  getMonth :: nat
  getDate :: nat
  getHours :: nat
  getMinutes :: nat
  getSeconds :: nat

text \<open>
  The interfaces of \<^verbatim>\<open>model.ts\<close>, with the fields the plugin reads.  A field of another
  record with the same name carries the record's name as a prefix.  \<open>UserAssetWithDef\<close>
  is \<open>Asset UserAsset\<close>, and the plain \<open>UserAsset\<close> is \<open>Asset option UserAsset\<close>.
\<close>

record Asset =
  name :: string

record 'a UserAsset =
  asset :: 'a
  count :: int
  expireAt :: "date option"

record Balance =
  available :: int
  all' :: int

record 'a Details =
  available_assets :: "'a UserAsset list"
  unavailable_assets :: "'a UserAsset list"

record 'a Bucket = Balance +
  details :: "'a Details option"

record Wallet =
  total :: Balance
  paid :: "Asset option Bucket"
  free :: "Asset option Bucket"
  tickets :: "Asset Bucket"
  passes :: "Asset Bucket"

record LogoutSession =
  createdAt :: date
  closedAt :: "date option"
  costOverwrite :: "int option"
  finalCost :: int

record LogoutBilling =
  logout_totalCost :: int

record LogoutResponse =
  logout_session :: LogoutSession
  logout_billing :: LogoutBilling

record BillingSegment =
  ruleId :: int
  ruleName :: string
  startTime :: date
  endTime :: date
  durationMinutes :: int
  cost :: int
  isCapped :: bool

record DiscountLog =
  log_asset :: string
  saved :: int

record DiscountInfo =
  discount_finalCost :: int
  originalCost :: int
  appliedLogs :: "DiscountLog list"

record BillingInfo =
  billing_startTime :: date
  billing_endTime :: date
  totalCost :: int
  segments :: "BillingSegment list"

record BillingResponse =
  session :: LogoutSession
  billing :: BillingInfo
  discount :: "DiscountInfo option"
  wallet :: Wallet

text \<open>
  What a rejected promise carries, as far as \<open>handleAction\<close> looks at it: an
  \<open>ApiError\<close> with its \<^verbatim>\<open>response.data.message\<close>, or any other value (a network
  failure, a \<^verbatim>\<open>TypeError\<close>), which has no such field.
\<close>

datatype thrown = ApiError string | OtherError

section \<open>The plugin's environment\<close>

text \<open>
  The Koishi session and configuration, and the two services of the Koishi context the
  plugin calls: the permission check and the HTTP client.  The HTTP client answers a
  request for a URL with a value of the type \<^verbatim>\<open>service.ts\<close> declares for it, or
  rejects.
\<close>

record Session =
  userId :: string
  messageId :: "string option"

record Config =
  url :: string
  admin :: string

record Ctx =
  permissions_check :: "string \<Rightarrow> Session option \<Rightarrow> thrown + bool"
  http_post_logout :: "string \<Rightarrow> thrown + LogoutResponse"
  http_get_billing :: "string \<Rightarrow> thrown + BillingResponse"
  http_get_wallet :: "string \<Rightarrow> thrown + Wallet"

record ActionContext =
  ctx :: Ctx
  config :: Config
  context_session :: "Session option"

record Argv =
  argv_session :: "Session option"

text \<open>
  The state a command changes: the module's map \<open>kv\<close> of pending logouts (user id to
  the time of the request), and the trace of what the command did to it and to the
  remote service, in order.
\<close>

datatype event =
  KvSet "string option" int
| KvDelete "string option"
| HttpGet string
| HttpPost string

record world =
  kv :: "string option \<rightharpoonup> int"
  trace :: "event list"

type_synonym 'a command = "world \<Rightarrow> (thrown + 'a) \<times> world"

section \<open>The localized literals\<close>

definition zh_unknown_error :: string where
  \<comment> \<open>index.ts:32: U+64CD U+4F5C U+5931 U+8D25 U+FF0C U+53D1 U+751F U+4E86 U+672A U+77E5 U+9519 U+8BEF U+3002\<close>
  "zh_unknown_error =
  [CHR 0xE6, CHR 0x93, CHR 0x8D, CHR 0xE4, CHR 0xBD, CHR 0x9C, CHR 0xE5, CHR 0xA4,
   CHR 0xB1, CHR 0xE8, CHR 0xB4, CHR 0xA5, CHR 0xEF, CHR 0xBC, CHR 0x8C, CHR 0xE5,
   CHR 0x8F, CHR 0x91, CHR 0xE7, CHR 0x94, CHR 0x9F, CHR 0xE4, CHR 0xBA, CHR 0x86,
   CHR 0xE6, CHR 0x9C, CHR 0xAA, CHR 0xE7, CHR 0x9F, CHR 0xA5, CHR 0xE9, CHR 0x94,
   CHR 0x99, CHR 0xE8, CHR 0xAF, CHR 0xAF, CHR 0xE3, CHR 0x80, CHR 0x82]"

definition zh_never_expires :: string where
  \<comment> \<open>index.ts:46: U+6C38 U+4E0D U+8FC7 U+671F\<close>
  "zh_never_expires =
  [CHR 0xE6, CHR 0xB0, CHR 0xB8, CHR 0xE4, CHR 0xB8, CHR 0x8D, CHR 0xE8, CHR 0xBF,
   CHR 0x87, CHR 0xE6, CHR 0x9C, CHR 0x9F]"

definition zh_insufficient_privilege :: string where
  \<comment> \<open>index.ts:136: U+6743 U+9650 U+4E0D U+8DB3\<close>
  "zh_insufficient_privilege =
  [CHR 0xE6, CHR 0x9D, CHR 0x83, CHR 0xE9, CHR 0x99, CHR 0x90, CHR 0xE4, CHR 0xB8,
   CHR 0x8D, CHR 0xE8, CHR 0xB6, CHR 0xB3]"

definition zh_billing_details :: string where
  \<comment> \<open>index.ts:59: U+8D26 U+5355 U+8BE6 U+60C5\<close>
  "zh_billing_details =
  [CHR 0xE8, CHR 0xB4, CHR 0xA6, CHR 0xE5, CHR 0x8D, CHR 0x95, CHR 0xE8, CHR 0xAF,
   CHR 0xA6, CHR 0xE6, CHR 0x83, CHR 0x85]"

definition zh_entry :: string where
  \<comment> \<open>index.ts:62: U+5165 U+573A\<close>
  "zh_entry =
  [CHR 0xE5, CHR 0x85, CHR 0xA5, CHR 0xE5, CHR 0x9C, CHR 0xBA]"

definition zh_settle :: string where
  \<comment> \<open>index.ts:63: U+7ED3 U+7B97\<close>
  "zh_settle =
  [CHR 0xE7, CHR 0xBB, CHR 0x93, CHR 0xE7, CHR 0xAE, CHR 0x97]"

definition zh_billed_price :: string where
  \<comment> \<open>index.ts:73: U+8BA1 U+8D39 U+4EF7\<close>
  "zh_billed_price =
  [CHR 0xE8, CHR 0xAE, CHR 0xA1, CHR 0xE8, CHR 0xB4, CHR 0xB9, CHR 0xE4, CHR 0xBB,
   CHR 0xB7]"

definition zh_mooncake :: string where
  \<comment> \<open>index.ts:73: U+6708 U+997C\<close>
  "zh_mooncake =
  [CHR 0xE6, CHR 0x9C, CHR 0x88, CHR 0xE9, CHR 0xA5, CHR 0xBC]"

definition zh_lquote :: string where
  \<comment> \<open>index.ts:77: U+300C\<close>
  "zh_lquote =
  [CHR 0xE3, CHR 0x80, CHR 0x8C]"

definition zh_rquote :: string where
  \<comment> \<open>index.ts:77: U+300D\<close>
  "zh_rquote =
  [CHR 0xE3, CHR 0x80, CHR 0x8D]"

definition zh_settle_price :: string where
  \<comment> \<open>index.ts:81: U+7ED3 U+7B97 U+4EF7\<close>
  "zh_settle_price =
  [CHR 0xE7, CHR 0xBB, CHR 0x93, CHR 0xE7, CHR 0xAE, CHR 0x97, CHR 0xE4, CHR 0xBB,
   CHR 0xB7]"

definition zh_current_balance :: string where
  \<comment> \<open>index.ts:87: U+5F53 U+524D U+4F59 U+989D\<close>
  "zh_current_balance =
  [CHR 0xE5, CHR 0xBD, CHR 0x93, CHR 0xE5, CHR 0x89, CHR 0x8D, CHR 0xE4, CHR 0xBD,
   CHR 0x99, CHR 0xE9, CHR 0xA2, CHR 0x9D]"

definition zh_after_deduction :: string where
  \<comment> \<open>index.ts:88: U+6263 U+6B3E U+540E\<close>
  "zh_after_deduction =
  [CHR 0xE6, CHR 0x89, CHR 0xA3, CHR 0xE6, CHR 0xAC, CHR 0xBE, CHR 0xE5, CHR 0x90,
   CHR 0x8E]"

definition zh_billing_intervals :: string where
  \<comment> \<open>index.ts:92: U+8BA1 U+8D39 U+533A U+95F4\<close>
  "zh_billing_intervals =
  [CHR 0xE8, CHR 0xAE, CHR 0xA1, CHR 0xE8, CHR 0xB4, CHR 0xB9, CHR 0xE5, CHR 0x8C,
   CHR 0xBA, CHR 0xE9, CHR 0x97, CHR 0xB4]"

definition zh_period :: string where
  \<comment> \<open>index.ts:113: U+65F6 U+6BB5\<close>
  "zh_period =
  [CHR 0xE6, CHR 0x97, CHR 0xB6, CHR 0xE6, CHR 0xAE, CHR 0xB5]"

definition zh_fee :: string where
  \<comment> \<open>index.ts:114: U+8D39 U+7528\<close>
  "zh_fee =
  [CHR 0xE8, CHR 0xB4, CHR 0xB9, CHR 0xE7, CHR 0x94, CHR 0xA8]"

definition zh_capped :: string where
  \<comment> \<open>index.ts:114: U+5DF2 U+5C01 U+9876\<close>
  "zh_capped =
  [CHR 0xE5, CHR 0xB7, CHR 0xB2, CHR 0xE5, CHR 0xB0, CHR 0x81, CHR 0xE9, CHR 0xA1,
   CHR 0xB6]"

definition zh_none :: string where
  \<comment> \<open>index.ts:118: U+65E0\<close>
  "zh_none =
  [CHR 0xE6, CHR 0x97, CHR 0xA0]"

definition zh_your_pass_will :: string where
  \<comment> \<open>index.ts:125: U+60A8 U+7684 U+6708 U+5361 U+5C06 U+4E8E\<close>
  "zh_your_pass_will =
  [CHR 0xE6, CHR 0x82, CHR 0xA8, CHR 0xE7, CHR 0x9A, CHR 0x84, CHR 0xE6, CHR 0x9C,
   CHR 0x88, CHR 0xE5, CHR 0x8D, CHR 0xA1, CHR 0xE5, CHR 0xB0, CHR 0x86, CHR 0xE4,
   CHR 0xBA, CHR 0x8E]"

definition zh_is_due :: string where
  \<comment> \<open>index.ts:125: U+5230 U+671F\<close>
  "zh_is_due =
  [CHR 0xE5, CHR 0x88, CHR 0xB0, CHR 0xE6, CHR 0x9C, CHR 0x9F]"

definition zh_full_stop :: string where
  \<comment> \<open>index.ts:125: U+3002\<close>
  "zh_full_stop =
  [CHR 0xE3, CHR 0x80, CHR 0x82]"

definition zh_check_mark :: string where
  \<comment> \<open>index.ts:175: U+2705\<close>
  "zh_check_mark =
  [CHR 0xE2, CHR 0x9C, CHR 0x85]"

definition zh_done_for_user :: string where
  \<comment> \<open>index.ts:175: U+5DF2 U+4E3A U+7528 U+6237\<close>
  "zh_done_for_user =
  [CHR 0xE5, CHR 0xB7, CHR 0xB2, CHR 0xE4, CHR 0xB8, CHR 0xBA, CHR 0xE7, CHR 0x94,
   CHR 0xA8, CHR 0xE6, CHR 0x88, CHR 0xB7]"

definition zh_checked_out :: string where
  \<comment> \<open>index.ts:175: U+9000 U+573A\<close>
  "zh_checked_out =
  [CHR 0xE9, CHR 0x80, CHR 0x80, CHR 0xE5, CHR 0x9C, CHR 0xBA]"

definition zh_checkout_ok :: string where
  \<comment> \<open>index.ts:175: U+9000 U+573A U+6210 U+529F\<close>
  "zh_checkout_ok =
  [CHR 0xE9, CHR 0x80, CHR 0x80, CHR 0xE5, CHR 0x9C, CHR 0xBA, CHR 0xE6, CHR 0x88,
   CHR 0x90, CHR 0xE5, CHR 0x8A, CHR 0x9F]"

definition zh_entry_time :: string where
  \<comment> \<open>index.ts:178: U+5165 U+573A U+65F6 U+95F4\<close>
  "zh_entry_time =
  [CHR 0xE5, CHR 0x85, CHR 0xA5, CHR 0xE5, CHR 0x9C, CHR 0xBA, CHR 0xE6, CHR 0x97,
   CHR 0xB6, CHR 0xE9, CHR 0x97, CHR 0xB4]"

definition zh_leave_time :: string where
  \<comment> \<open>index.ts:179: U+79BB U+573A U+65F6 U+95F4\<close>
  "zh_leave_time =
  [CHR 0xE7, CHR 0xA6, CHR 0xBB, CHR 0xE5, CHR 0x9C, CHR 0xBA, CHR 0xE6, CHR 0x97,
   CHR 0xB6, CHR 0xE9, CHR 0x97, CHR 0xB4]"

definition zh_spent :: string where
  \<comment> \<open>index.ts:180: U+6D88 U+8D39\<close>
  "zh_spent =
  [CHR 0xE6, CHR 0xB6, CHR 0x88, CHR 0xE8, CHR 0xB4, CHR 0xB9]"

definition zh_following_is_user :: string where
  \<comment> \<open>index.ts:188: U+4EE5 U+4E0B U+662F U+7528 U+6237\<close>
  "zh_following_is_user =
  [CHR 0xE4, CHR 0xBB, CHR 0xA5, CHR 0xE4, CHR 0xB8, CHR 0x8B, CHR 0xE6, CHR 0x98,
   CHR 0xAF, CHR 0xE7, CHR 0x94, CHR 0xA8, CHR 0xE6, CHR 0x88, CHR 0xB7]"

definition zh_s_bill_preview :: string where
  \<comment> \<open>index.ts:188: U+7684 U+8D26 U+5355 U+9884 U+89C8\<close>
  "zh_s_bill_preview =
  [CHR 0xE7, CHR 0x9A, CHR 0x84, CHR 0xE8, CHR 0xB4, CHR 0xA6, CHR 0xE5, CHR 0x8D,
   CHR 0x95, CHR 0xE9, CHR 0xA2, CHR 0x84, CHR 0xE8, CHR 0xA7, CHR 0x88]"

definition zh_warning_sign :: string where
  \<comment> \<open>index.ts:188: U+26A0 U+FE0F\<close>
  "zh_warning_sign =
  [CHR 0xE2, CHR 0x9A, CHR 0xA0, CHR 0xEF, CHR 0xB8, CHR 0x8F]"

definition zh_within60_again :: string where
  \<comment> \<open>index.ts:188: U+8BF7 U+5728 U+0036 U+0030 U+79D2 U+5185 U+518D U+6B21 U+8F93 U+5165\<close>
  "zh_within60_again =
  [CHR 0xE8, CHR 0xAF, CHR 0xB7, CHR 0xE5, CHR 0x9C, CHR 0xA8, CHR 0x36, CHR 0x30,
   CHR 0xE7, CHR 0xA7, CHR 0x92, CHR 0xE5, CHR 0x86, CHR 0x85, CHR 0xE5, CHR 0x86,
   CHR 0x8D, CHR 0xE6, CHR 0xAC, CHR 0xA1, CHR 0xE8, CHR 0xBE, CHR 0x93, CHR 0xE5,
   CHR 0x85, CHR 0xA5]"

definition zh_to_confirm_logout :: string where
  \<comment> \<open>index.ts:188: U+4EE5 U+786E U+8BA4 U+767B U+51FA U+3002\<close>
  "zh_to_confirm_logout =
  [CHR 0xE4, CHR 0xBB, CHR 0xA5, CHR 0xE7, CHR 0xA1, CHR 0xAE, CHR 0xE8, CHR 0xAE,
   CHR 0xA4, CHR 0xE7, CHR 0x99, CHR 0xBB, CHR 0xE5, CHR 0x87, CHR 0xBA, CHR 0xE3,
   CHR 0x80, CHR 0x82]"

definition zh_this_is_your_preview :: string where
  \<comment> \<open>index.ts:190: U+8FD9 U+662F U+60A8 U+7684 U+8D26 U+5355 U+9884 U+89C8 U+3002\<close>
  "zh_this_is_your_preview =
  [CHR 0xE8, CHR 0xBF, CHR 0x99, CHR 0xE6, CHR 0x98, CHR 0xAF, CHR 0xE6, CHR 0x82,
   CHR 0xA8, CHR 0xE7, CHR 0x9A, CHR 0x84, CHR 0xE8, CHR 0xB4, CHR 0xA6, CHR 0xE5,
   CHR 0x8D, CHR 0x95, CHR 0xE9, CHR 0xA2, CHR 0x84, CHR 0xE8, CHR 0xA7, CHR 0x88,
   CHR 0xE3, CHR 0x80, CHR 0x82]"

definition zh_user :: string where
  \<comment> \<open>index.ts:218: U+7528 U+6237\<close>
  "zh_user =
  [CHR 0xE7, CHR 0x94, CHR 0xA8, CHR 0xE6, CHR 0x88, CHR 0xB7]"

definition zh_s_wallet_balance :: string where
  \<comment> \<open>index.ts:218: U+7684 U+94B1 U+5305 U+4F59 U+989D\<close>
  "zh_s_wallet_balance =
  [CHR 0xE7, CHR 0x9A, CHR 0x84, CHR 0xE9, CHR 0x92, CHR 0xB1, CHR 0xE5, CHR 0x8C,
   CHR 0x85, CHR 0xE4, CHR 0xBD, CHR 0x99, CHR 0xE9, CHR 0xA2, CHR 0x9D]"

definition zh_wallet_balance :: string where
  \<comment> \<open>index.ts:218: U+94B1 U+5305 U+4F59 U+989D\<close>
  "zh_wallet_balance =
  [CHR 0xE9, CHR 0x92, CHR 0xB1, CHR 0xE5, CHR 0x8C, CHR 0x85, CHR 0xE4, CHR 0xBD,
   CHR 0x99, CHR 0xE9, CHR 0xA2, CHR 0x9D]"

definition zh_usable :: string where
  \<comment> \<open>index.ts:220: U+53EF U+7528\<close>
  "zh_usable =
  [CHR 0xE5, CHR 0x8F, CHR 0xAF, CHR 0xE7, CHR 0x94, CHR 0xA8]"

definition zh_in_total :: string where
  \<comment> \<open>index.ts:220: U+5171\<close>
  "zh_in_total =
  [CHR 0xE5, CHR 0x85, CHR 0xB1]"

definition zh_paid :: string where
  \<comment> \<open>index.ts:221: U+4ED8 U+8D39\<close>
  "zh_paid =
  [CHR 0xE4, CHR 0xBB, CHR 0x98, CHR 0xE8, CHR 0xB4, CHR 0xB9]"

definition zh_free :: string where
  \<comment> \<open>index.ts:222: U+514D U+8D39\<close>
  "zh_free =
  [CHR 0xE5, CHR 0x85, CHR 0x8D, CHR 0xE8, CHR 0xB4, CHR 0xB9]"

definition zh_you_still_have :: string where
  \<comment> \<open>index.ts:227: U+60A8 U+8FD8 U+6709\<close>
  "zh_you_still_have =
  [CHR 0xE6, CHR 0x82, CHR 0xA8, CHR 0xE8, CHR 0xBF, CHR 0x98, CHR 0xE6, CHR 0x9C,
   CHR 0x89]"

definition zh_not_yet_usable :: string where
  \<comment> \<open>index.ts:227: U+672A U+5230 U+53EF U+7528 U+65F6 U+95F4 U+3002\<close>
  "zh_not_yet_usable =
  [CHR 0xE6, CHR 0x9C, CHR 0xAA, CHR 0xE5, CHR 0x88, CHR 0xB0, CHR 0xE5, CHR 0x8F,
   CHR 0xAF, CHR 0xE7, CHR 0x94, CHR 0xA8, CHR 0xE6, CHR 0x97, CHR 0xB6, CHR 0xE9,
   CHR 0x97, CHR 0xB4, CHR 0xE3, CHR 0x80, CHR 0x82]"

definition zh_notice_you_have :: string where
  \<comment> \<open>index.ts:234: U+6CE8 U+610F U+FF1A U+60A8 U+6709\<close>
  "zh_notice_you_have =
  [CHR 0xE6, CHR 0xB3, CHR 0xA8, CHR 0xE6, CHR 0x84, CHR 0x8F, CHR 0xEF, CHR 0xBC,
   CHR 0x9A, CHR 0xE6, CHR 0x82, CHR 0xA8, CHR 0xE6, CHR 0x9C, CHR 0x89]"

definition zh_will_at :: string where
  \<comment> \<open>index.ts:234: U+5C06 U+4E8E\<close>
  "zh_will_at =
  [CHR 0xE5, CHR 0xB0, CHR 0x86, CHR 0xE4, CHR 0xBA, CHR 0x8E]"

definition zh_expires_stop :: string where
  \<comment> \<open>index.ts:234: U+8FC7 U+671F U+3002\<close>
  "zh_expires_stop =
  [CHR 0xE8, CHR 0xBF, CHR 0x87, CHR 0xE6, CHR 0x9C, CHR 0x9F, CHR 0xE3, CHR 0x80,
   CHR 0x82]"

definition zh_usable_passes :: string where
  \<comment> \<open>index.ts:240: U+53EF U+7528 U+6708 U+5361\<close>
  "zh_usable_passes =
  [CHR 0xE5, CHR 0x8F, CHR 0xAF, CHR 0xE7, CHR 0x94, CHR 0xA8, CHR 0xE6, CHR 0x9C,
   CHR 0x88, CHR 0xE5, CHR 0x8D, CHR 0xA1]"

definition zh_usable_tickets :: string where
  \<comment> \<open>index.ts:250: U+53EF U+7528 U+4F18 U+60E0 U+5238\<close>
  "zh_usable_tickets =
  [CHR 0xE5, CHR 0x8F, CHR 0xAF, CHR 0xE7, CHR 0x94, CHR 0xA8, CHR 0xE4, CHR 0xBC,
   CHR 0x98, CHR 0xE6, CHR 0x83, CHR 0xA0, CHR 0xE5, CHR 0x88, CHR 0xB8]"

definition zh_s_bill :: string where
  \<comment> \<open>index.ts:267: U+7684 U+8D26 U+5355\<close>
  "zh_s_bill =
  [CHR 0xE7, CHR 0x9A, CHR 0x84, CHR 0xE8, CHR 0xB4, CHR 0xA6, CHR 0xE5, CHR 0x8D,
   CHR 0x95]"


section \<open>index.ts: formatting\<close>

definition formatDateTime :: "date option \<Rightarrow> string" where
  "formatDateTime dateStr =
     (case dateStr of
        None \<Rightarrow> zh_never_expires
      | Some date \<Rightarrow>
          (let y = show_int (getFullYear date);
               m = padStart2 (show_nat (getMonth date + 1));
               d = padStart2 (show_nat (getDate date));
               h = padStart2 (show_nat (getHours date));
               min = padStart2 (show_nat (getMinutes date));
               s = padStart2 (show_nat (getSeconds date))
           in y @ ''/'' @ m @ ''/'' @ d @ '' '' @ h @ '':'' @ min @ '':'' @ s))"

text \<open>
  The helpers of the segment loop: \<^verbatim>\<open>toLocaleTimeString('en-GB', ...)\<close> with two-digit
  fields on the 24-hour clock, the month/day form, and the test that two dates print the
  same \<^verbatim>\<open>toLocaleDateString()\<close>, that is, fall on the same calendar day.
\<close>

definition formatTime :: "date \<Rightarrow> string" where
  "formatTime d =
     padStart2 (show_nat (getHours d)) @ '':'' @ padStart2 (show_nat (getMinutes d)) @ '':'' @
     padStart2 (show_nat (getSeconds d))"

definition formatDate :: "date \<Rightarrow> string" where
  "formatDate d = show_nat (getMonth d + 1) @ ''/'' @ show_nat (getDate d)"

definition same_day :: "date \<Rightarrow> date \<Rightarrow> bool" where
  "same_day a b \<longleftrightarrow>
     getFullYear a = getFullYear b \<and> getMonth a = getMonth b \<and> getDate a = getDate b"

definition timeString :: "BillingSegment \<Rightarrow> string" where
  "timeString seg =
     (let start = startTime seg; end = endTime seg in
      if same_day start end then formatTime start @ '' - '' @ formatTime end
      else formatDate start @ '' '' @ formatTime start @ '' - '' @
           formatDate end @ '' '' @ formatTime end)"

text \<open>The three lines pushed for one segment (index.ts:112-114).\<close>

definition segment_lines :: "BillingSegment \<Rightarrow> string list" where
  "segment_lines seg =
     [''- '' @ ruleName seg,
      ''  '' @ zh_period @ '': '' @ timeString seg,
      ''  '' @ zh_fee @ '': '' @ show_int (cost seg) @ '' '' @ zh_mooncake @ '' '' @
        (if isCapped seg then ''('' @ zh_capped @ '')'' else [])]"

text \<open>The loop \<^verbatim>\<open>res.billing.segments.forEach(seg => ...)\<close> over the array \<open>message\<close>.\<close>

fun forEach_segments :: "BillingSegment list \<Rightarrow> string list \<Rightarrow> string list" where
  "forEach_segments [] message = message"
| "forEach_segments (seg # segs) message =
     forEach_segments segs
       (if cost seg \<ge> 0 then message @ segment_lines seg else message)"

definition discount_line :: "DiscountLog \<Rightarrow> string" where
  "discount_line log =
     ''  -'' @ zh_lquote @ log_asset log @ zh_rquote @ '': -'' @ show_int (saved log) @
     '' '' @ zh_mooncake"

text \<open>The constants \<open>originalCost\<close> and \<open>finalCost\<close> of \<open>formatBilling\<close> (index.ts:67-71).\<close>

definition originalCost_of :: "BillingResponse \<Rightarrow> int" where
  "originalCost_of res =
     (case discount res of Some d \<Rightarrow> originalCost d | None \<Rightarrow> totalCost (billing res))"

definition finalCost_of :: "BillingResponse \<Rightarrow> int" where
  "finalCost_of res =
     (let finalCost0 =
        (case discount res of Some d \<Rightarrow> discount_finalCost d | None \<Rightarrow> totalCost (billing res))
      in if truthy_num (costOverwrite (session res))
         then (case costOverwrite (session res) of Some c \<Rightarrow> c | None \<Rightarrow> finalCost0)
         else finalCost0)"

definition final_cost_line :: "int \<Rightarrow> string" where
  "final_cost_line finalCost' = zh_settle_price @ '': '' @ show_int finalCost' @ '' '' @ zh_mooncake"

text \<open>\<^verbatim>\<open>res.wallet.passes?.details?.available?.[0]\<close>\<close>

definition monthlyPass_of :: "BillingResponse \<Rightarrow> Asset UserAsset option" where
  "monthlyPass_of res =
     (case details (passes (wallet res)) of
        None \<Rightarrow> None
      | Some d \<Rightarrow> index (available_assets d) 0)"

text \<open>
  The array \<open>message\<close> of \<open>formatBilling\<close> in three steps: what has been pushed when the
  segment loop is reached (index.ts:58-92), the segments (index.ts:93-119), and the
  lines about the monthly pass (index.ts:121-126).
\<close>

definition message_before_segments :: "BillingResponse \<Rightarrow> string list" where
  "message_before_segments res =
     (let message1 =
            [''--- '' @ zh_billing_details @ '' ---'',
             zh_entry @ '': '' @ formatDateTime (Some (createdAt (session res))),
             zh_settle @ '': '' @ formatDateTime (Some (billing_endTime (billing res))),
             ''---''];
          message2 = message1 @
            [zh_billed_price @ '': '' @ show_int (originalCost_of res) @ '' '' @ zh_mooncake];
          message3 = message2 @
            (case discount res of
               None \<Rightarrow> []
             | Some d \<Rightarrow>
                 if length (appliedLogs d) > 0 then map discount_line (appliedLogs d) else []);
          message4 = message3 @ [final_cost_line (finalCost_of res), ''---''];
          currentBalance = available (total (wallet res));
          finalBalance = currentBalance - finalCost_of res
      in message4 @
           [zh_current_balance @ '': '' @ show_int currentBalance @ '' '' @ zh_mooncake,
            zh_after_deduction @ '': '' @ show_int finalBalance @ '' '' @ zh_mooncake,
            ''---'',
            zh_billing_intervals @ '':''])"

definition no_segments_line :: string where
  "no_segments_line = ''  ('' @ zh_none @ '')''"

definition pass_expiry_lines :: "BillingResponse \<Rightarrow> string list" where
  "pass_expiry_lines res =
     (case monthlyPass_of res of
        None \<Rightarrow> []
      | Some monthlyPass \<Rightarrow>
          (case expireAt monthlyPass of
             None \<Rightarrow> []
           | Some e \<Rightarrow>
               [''---'',
                zh_your_pass_will @ '' '' @ formatDateTime (Some e) @ '' '' @
                  zh_is_due @ zh_full_stop]))"

definition formatBilling_message :: "BillingResponse \<Rightarrow> string list" where
  "formatBilling_message res =
     (let message5 = message_before_segments res;
          message6 =
            (if length (segments (billing res)) > 0
             then forEach_segments (segments (billing res)) message5
             else message5 @ [no_segments_line])
      in message6 @ pass_expiry_lines res)"

definition formatBilling :: "BillingResponse \<Rightarrow> string" where
  "formatBilling res = join NL (formatBilling_message res)"

section \<open>service.ts: the remote calls\<close>

text \<open>
  Each function of \<^verbatim>\<open>service.ts\<close> builds its URL from \<^verbatim>\<open>config.url\<close> and sends one
  request through \<^verbatim>\<open>ctx.http\<close>.
\<close>

definition logout_url :: "ActionContext \<Rightarrow> string option \<Rightarrow> string" where
  "logout_url context userId' =
     makeUrl (url (config context)) (''/users/QQ:'' @ show_str userId' @ ''/logout'')"

definition billing_url :: "ActionContext \<Rightarrow> string option \<Rightarrow> string" where
  "billing_url context userId' =
     makeUrl (url (config context)) (''/users/QQ:'' @ show_str userId' @ ''/billing'')"

definition wallet_url :: "ActionContext \<Rightarrow> string option \<Rightarrow> string" where
  "wallet_url context userId' =
     makeUrl (url (config context)) (''/users/QQ:'' @ show_str userId' @ ''/wallet?details=true'')"

definition service_logout :: "ActionContext \<Rightarrow> string option \<Rightarrow> LogoutResponse command" where
  "service_logout context userId' w =
     (http_post_logout (ctx context) (logout_url context userId'),
      w\<lparr>trace := trace w @ [HttpPost (logout_url context userId')]\<rparr>)"

definition service_billing :: "ActionContext \<Rightarrow> string option \<Rightarrow> BillingResponse command" where
  "service_billing context userId' w =
     (http_get_billing (ctx context) (billing_url context userId'),
      w\<lparr>trace := trace w @ [HttpGet (billing_url context userId')]\<rparr>)"

definition service_wallet :: "ActionContext \<Rightarrow> string option \<Rightarrow> Wallet command" where
  "service_wallet context userId' w =
     (http_get_wallet (ctx context) (wallet_url context userId'),
      w\<lparr>trace := trace w @ [HttpGet (wallet_url context userId')]\<rparr>)"

section \<open>index.ts: the command handlers\<close>

text \<open>The result \<^verbatim>\<open>{ error?: string; userId?: string }\<close> of \<open>getTargetUserId\<close>.\<close>

record Target =
  error :: "string option"
  target_userId :: "string option"

definition getTargetUserId :: "ActionContext \<Rightarrow> string option \<Rightarrow> thrown + Target" where
  "getTargetUserId context user =
     (case user of
        Some u \<Rightarrow>
          (if u \<noteq> [] then
             (case permissions_check (ctx context) (admin (config context))
                     (context_session context) of
                Inl e \<Rightarrow> Inl e
              | Inr allowed \<Rightarrow>
                  if \<not> allowed
                  then Inr \<lparr>error = Some zh_insufficient_privilege, target_userId = None\<rparr>
                  else Inr \<lparr>error = None, target_userId = index (split (CHR '':'') u) 1\<rparr>)
           else (case context_session context of
                   None \<Rightarrow> Inl OtherError
                 | Some s \<Rightarrow> Inr \<lparr>error = None, target_userId = Some (userId s)\<rparr>))
      | None \<Rightarrow>
          (case context_session context of
             None \<Rightarrow> Inl OtherError
           | Some s \<Rightarrow> Inr \<lparr>error = None, target_userId = Some (userId s)\<rparr>))"

text \<open>
  The two lines every handler with a target starts with:
  \<^verbatim>\<open>const { error, userId } = await getTargetUserId(context, user); if (error) return error;\<close>
  followed by the rest of the handler, which gets \<open>userId\<close>.
\<close>

definition with_target ::
  "ActionContext \<Rightarrow> string option \<Rightarrow> (string option \<Rightarrow> string command) \<Rightarrow> string command" where
  "with_target context user rest w =
     (case getTargetUserId context user of
        Inl e \<Rightarrow> (Inl e, w)
      | Inr r \<Rightarrow>
          (case error r of
             Some e \<Rightarrow> if e \<noteq> [] then (Inr e, w) else rest (target_userId r) w
           | None \<Rightarrow> rest (target_userId r) w))"

text \<open>\<^verbatim>\<open>pendingLogout && (now - pendingLogout < 60 * 1000)\<close> (index.ts:171)\<close>

fun confirming :: "int option \<Rightarrow> int \<Rightarrow> bool" where
  "confirming None now = False"
| "confirming (Some pendingLogout) now =
     (pendingLogout \<noteq> 0 \<and> now - pendingLogout < 60 * 1000)"

definition kv_delete :: "string option \<Rightarrow> world \<Rightarrow> world" where
  "kv_delete k w = w\<lparr>kv := (kv w)(k := None), trace := trace w @ [KvDelete k]\<rparr>"

definition kv_set :: "string option \<Rightarrow> int \<Rightarrow> world \<Rightarrow> world" where
  "kv_set k v w = w\<lparr>kv := (kv w)(k \<mapsto> v), trace := trace w @ [KvSet k v]\<rparr>"

definition receipt :: "string option \<Rightarrow> string option \<Rightarrow> LogoutResponse \<Rightarrow> string" where
  "receipt user targetUserId res =
     (let messagePrefix =
            (if truthy_str user
             then zh_check_mark @ '' '' @ zh_done_for_user @ '' '' @ show_str targetUserId @
                  '' '' @ zh_checked_out
             else zh_check_mark @ '' '' @ zh_checkout_ok)
      in join NL
           [messagePrefix,
            zh_entry_time @ '': '' @ formatDateTime (Some (createdAt (logout_session res))),
            zh_leave_time @ '': '' @ formatDateTime (closedAt (logout_session res)),
            zh_spent @ '': '' @ show_int (finalCost (logout_session res)) @ '' '' @ zh_mooncake])"

definition preview :: "string option \<Rightarrow> string option \<Rightarrow> string \<Rightarrow> string" where
  "preview user targetUserId billingMessage =
     (if truthy_str user
      then zh_following_is_user @ '' '' @ show_str targetUserId @ '' '' @ zh_s_bill_preview @
           '':'' @ NL @ NL @ billingMessage @ NL @ NL @ ''---'' @ NL @
           zh_warning_sign @ '' '' @ zh_within60_again @ '' /logout '' @ show_str user @
           '' '' @ zh_to_confirm_logout
      else billingMessage @ NL @ NL @ ''---'' @ NL @
           zh_warning_sign @ '' '' @ zh_this_is_your_preview @ zh_within60_again @
           '' /logout '' @ zh_to_confirm_logout)"

text \<open>
  \<open>handleLogoutCmd\<close> (index.ts:164-192).  \<open>now\<close> is what \<^verbatim>\<open>Date.now()\<close> returns in this
  invocation.
\<close>

definition handleLogoutCmd :: "int \<Rightarrow> ActionContext \<Rightarrow> string option \<Rightarrow> string command" where
  "handleLogoutCmd now context user =
     with_target context user (\<lambda>targetUserId w.
       let pendingLogout = kv w targetUserId in
       if confirming pendingLogout now then
         (let w1 = kv_delete targetUserId w in
          case service_logout context targetUserId w1 of
            (Inl e, w2) \<Rightarrow> (Inl e, w2)
          | (Inr res, w2) \<Rightarrow> (Inr (receipt user targetUserId res), w2))
       else
         (case service_billing context targetUserId w of
            (Inl e, w1) \<Rightarrow> (Inl e, w1)
          | (Inr billingRes, w1) \<Rightarrow>
              (let billingMessage = formatBilling billingRes;
                   w2 = kv_set targetUserId now w1
               in (Inr (preview user targetUserId billingMessage), w2))))"

definition handleBillingCmd :: "ActionContext \<Rightarrow> string option \<Rightarrow> string command" where
  "handleBillingCmd context user =
     with_target context user (\<lambda>userId' w.
       case service_billing context userId' w of
         (Inl e, w1) \<Rightarrow> (Inl e, w1)
       | (Inr res, w1) \<Rightarrow>
           (let billingMessage = formatBilling res in
            if truthy_str user
            then (Inr (zh_user @ '' '' @ show_str userId' @ '' '' @ zh_s_bill @ '':'' @ NL @ NL @
                       billingMessage), w1)
            else (Inr billingMessage, w1)))"

text \<open>
  \<open>handleWalletCmd\<close> (index.ts:210-258).  The comparator of the sort is the difference
  of \<^verbatim>\<open>new Date(a.expireAt).getTime()\<close>, and \<^verbatim>\<open>Array.prototype.sort\<close> is stable: the
  result is the stable ascending sort on that key.
\<close>

definition expiry_time :: "'a UserAsset \<Rightarrow> int" where
  "expiry_time a = (case expireAt a of Some d \<Rightarrow> getTime d | None \<Rightarrow> 0)"

definition sort_by_expiry :: "'a UserAsset list \<Rightarrow> 'a UserAsset list" where
  "sort_by_expiry xs = sort_key expiry_time xs"

definition expiringFreeAssets :: "Wallet \<Rightarrow> Asset option UserAsset list" where
  "expiringFreeAssets res =
     (case details (free res) of
        None \<Rightarrow> []
      | Some d \<Rightarrow> filter (\<lambda>asset. expireAt asset \<noteq> None) (available_assets d))"

definition expiring_note :: "'a UserAsset \<Rightarrow> string" where
  "expiring_note soonestToExpire =
     NL @ zh_notice_you_have @ '' '' @ show_int (count soonestToExpire) @ '' '' @
     zh_free @ zh_mooncake @ zh_will_at @ '' '' @
     formatDateTime (expireAt soonestToExpire) @ '' '' @ zh_expires_stop"

text \<open>The lines pushed for the expiring free assets (index.ts:230-235).\<close>

definition expiring_lines :: "Wallet \<Rightarrow> string list" where
  "expiring_lines res =
     (if length (expiringFreeAssets res) > 0
      then (case sort_by_expiry (expiringFreeAssets res) of
              [] \<Rightarrow> []
            | soonestToExpire # _ \<Rightarrow> [expiring_note soonestToExpire])
      else [])"

definition pass_lines :: "Asset UserAsset \<Rightarrow> string list" where
  "pass_lines pass =
     [''- '' @ name (asset pass),
      ''  '' @ zh_is_due @ '': '' @ formatDateTime (expireAt pass)]"

definition ticket_lines :: "Asset UserAsset \<Rightarrow> string list" where
  "ticket_lines ticket =
     [''- '' @ name (asset ticket) @ '' (x'' @ show_int (count ticket) @ '')'',
      ''  '' @ zh_is_due @ '': '' @ formatDateTime (expireAt ticket)]"

definition available_of :: "'a Bucket \<Rightarrow> 'a UserAsset list" where
  \<comment> \<open>\<^verbatim>\<open>res.passes?.details?.available || []\<close>\<close>
  "available_of b = (case details b of None \<Rightarrow> [] | Some d \<Rightarrow> available_assets d)"

definition wallet_message :: "string option \<Rightarrow> string option \<Rightarrow> Wallet \<Rightarrow> string list" where
  "wallet_message user userId' res =
     (let targetUserId = (if truthy_str user then userId' else None);
          message1 =
            [if truthy_str targetUserId
             then ''--- '' @ zh_user @ '' '' @ show_str targetUserId @ '' '' @
                  zh_s_wallet_balance @ '' ---''
             else ''--- '' @ zh_wallet_balance @ '' ---''];
          message2 = message1 @
            [zh_usable @ '': '' @ show_int (available (total res)) @ '' '' @ zh_mooncake @
               '' ('' @ zh_in_total @ '' '' @ show_int (all' (total res)) @ '')'',
             ''  - '' @ zh_paid @ '': '' @ show_int (available (paid res)),
             ''  - '' @ zh_free @ '': '' @ show_int (available (free res))];
          unavailable = all' (total res) - available (total res);
          message3 = message2 @
            (if unavailable > 0
             then [NL @ zh_you_still_have @ '' '' @ show_int unavailable @ '' '' @
                   zh_mooncake @ zh_not_yet_usable]
             else []);
          message4 = message3 @ expiring_lines res;
          availablePasses = available_of (passes res);
          message5 = message4 @
            (if length availablePasses > 0
             then (NL @ ''--- '' @ zh_usable_passes @ '' ('' @
                   show_nat (length availablePasses) @ '') ---'') #
                  concat (map pass_lines availablePasses)
             else []);
          availableTickets = available_of (tickets res);
          message6 = message5 @
            (if length availableTickets > 0
             then (NL @ ''--- '' @ zh_usable_tickets @ '' ('' @
                   show_nat (length availableTickets) @ '') ---'') #
                  concat (map ticket_lines availableTickets)
             else [])
      in message6)"

definition handleWalletCmd :: "ActionContext \<Rightarrow> string option \<Rightarrow> string command" where
  "handleWalletCmd context user =
     with_target context user (\<lambda>userId' w.
       case service_wallet context userId' w of
         (Inl e, w1) \<Rightarrow> (Inl e, w1)
       | (Inr res, w1) \<Rightarrow> (Inr (join NL (wallet_message user userId' res)), w1))"

section \<open>index.ts: the wrapper of every command\<close>

fun apiMessage_of :: "thrown \<Rightarrow> string option" where
  \<comment> \<open>\<^verbatim>\<open>(e as Partial<ApiError>)?.response?.data?.message\<close>\<close>
  "apiMessage_of (ApiError m) = Some m"
| "apiMessage_of OtherError = None"

text \<open>
  \<open>handleAction\<close> (index.ts:20-40).  \<open>h_quote i\<close> is the text of Koishi's element
  \<^verbatim>\<open>h('quote', { id: i })\<close>, which is not part of this repository.
\<close>

definition handleAction ::
  "(string \<Rightarrow> string) \<Rightarrow> (Argv \<Rightarrow> string command) \<Rightarrow> Argv \<Rightarrow> string command" where
  "handleAction h_quote action argv w =
     (case action argv w of (r, w') \<Rightarrow>
        (let message =
               (case r of
                  Inr m \<Rightarrow> m
                | Inl e \<Rightarrow>
                    (case apiMessage_of e of
                       Some apiMessage \<Rightarrow>
                         if apiMessage \<noteq> [] then apiMessage else zh_unknown_error
                     | None \<Rightarrow> zh_unknown_error));
             message' =
               (case argv_session argv of
                  None \<Rightarrow> message
                | Some s \<Rightarrow>
                    (case messageId s of
                       None \<Rightarrow> message
                     | Some i \<Rightarrow> if i \<noteq> [] then h_quote i @ message else message))
         in (Inr message', w')))"

text \<open>\<open>createAction\<close> of \<open>apply\<close> (index.ts:395-407), for a handler with one argument.\<close>

definition createAction ::
  "(string \<Rightarrow> string) \<Rightarrow> Ctx \<Rightarrow> Config \<Rightarrow> (ActionContext \<Rightarrow> 'a \<Rightarrow> string command) \<Rightarrow>
   Argv \<Rightarrow> 'a \<Rightarrow> string command" where
  "createAction h_quote c cfg handler argv arg =
     handleAction h_quote
       (\<lambda>argv. handler \<lparr>ctx = c, config = cfg, context_session = argv_session argv\<rparr> arg)
       argv"

section \<open>The examples of the specification\<close>

text \<open>
  The data of the specification's examples (section 8): three free assets expiring on
  2025-03-01, 2025-01-15 and 2025-02-10 (UTC), and a billing preview with a total cost of
  100, a discounted cost of 80, a cost overwrite of 50 and two segments costing -5 and 10.
\<close>

definition day_2025_03_01 :: date where
  "day_2025_03_01 =
     \<lparr>getTime = 1740787200000, getFullYear = 2025, getMonth = 2, getDate = 1,
      getHours = 0, getMinutes = 0, getSeconds = 0\<rparr>"

definition day_2025_01_15 :: date where
  "day_2025_01_15 =
     \<lparr>getTime = 1736899200000, getFullYear = 2025, getMonth = 0, getDate = 15,
      getHours = 0, getMinutes = 0, getSeconds = 0\<rparr>"

definition day_2025_02_10 :: date where
  "day_2025_02_10 =
     \<lparr>getTime = 1739145600000, getFullYear = 2025, getMonth = 1, getDate = 10,
      getHours = 0, getMinutes = 0, getSeconds = 0\<rparr>"

definition entered_at :: date where
  "entered_at =
     \<lparr>getTime = 1736496000000, getFullYear = 2025, getMonth = 0, getDate = 10,
      getHours = 8, getMinutes = 0, getSeconds = 0\<rparr>"

definition settled_at :: date where
  "settled_at =
     \<lparr>getTime = 1736512200000, getFullYear = 2025, getMonth = 0, getDate = 10,
      getHours = 12, getMinutes = 30, getSeconds = 0\<rparr>"

definition free_asset :: "int \<Rightarrow> date \<Rightarrow> Asset option UserAsset" where
  "free_asset n d = \<lparr>asset = None, count = n, expireAt = Some d\<rparr>"

definition example_wallet :: Wallet where
  "example_wallet =
     \<lparr>total = \<lparr>available = 300, all' = 300\<rparr>,
      paid = \<lparr>available = 240, all' = 240, details = None\<rparr>,
      free = \<lparr>available = 60, all' = 60,
              details = Some
                \<lparr>available_assets =
                   [free_asset 10 day_2025_03_01, free_asset 20 day_2025_01_15,
                    free_asset 30 day_2025_02_10],
                 unavailable_assets = []\<rparr>\<rparr>,
      tickets = \<lparr>available = 0, all' = 0, details = None\<rparr>,
      passes = \<lparr>available = 0, all' = 0, details = None\<rparr>\<rparr>"

definition example_segment :: "int \<Rightarrow> BillingSegment" where
  "example_segment c =
     \<lparr>ruleId = 1, ruleName = ''day'', startTime = entered_at, endTime = settled_at,
      durationMinutes = 270, cost = c, isCapped = False\<rparr>"

definition example_billing :: BillingResponse where
  "example_billing =
     \<lparr>session = \<lparr>createdAt = entered_at, closedAt = None, costOverwrite = Some 50,
                 finalCost = 0\<rparr>,
      billing = \<lparr>billing_startTime = entered_at, billing_endTime = settled_at,
                 totalCost = 100,
                 segments = [example_segment (- 5), example_segment 10]\<rparr>,
      discount = Some \<lparr>discount_finalCost = 80, originalCost = 100, appliedLogs = []\<rparr>,
      wallet = example_wallet\<rparr>"

text \<open>
  A member without the admin capability, talking to a service that answers every billing
  and wallet request with the data above and rejects every logout request.
\<close>

definition example_context :: ActionContext where
  "example_context =
     \<lparr>ctx = \<lparr>permissions_check = (\<lambda>capability s. Inr False),
              http_post_logout = (\<lambda>u. Inl (ApiError ''no open session'')),
              http_get_billing = (\<lambda>u. Inr example_billing),
              http_get_wallet = (\<lambda>u. Inr example_wallet)\<rparr>,
      config = \<lparr>url = ''http://host/'', admin = ''authority:3''\<rparr>,
      context_session = Some \<lparr>userId = ''10001'', messageId = Some ''m1''\<rparr>\<rparr>"

definition empty_world :: world where
  "empty_world = \<lparr>kv = Map.empty, trace = []\<rparr>"

text \<open>
  The same member with a request pending since 1700000000000, the same service when its
  billing endpoint cannot be reached, and a caller who holds the admin capability.
\<close>

definition pending_world :: world where
  "pending_world = \<lparr>kv = [Some ''10001'' \<mapsto> 1700000000000], trace = []\<rparr>"

definition offline_context :: ActionContext where
  "offline_context =
     example_context\<lparr>ctx := (ctx example_context)\<lparr>http_get_billing := (\<lambda>u. Inl OtherError)\<rparr>\<rparr>"

definition admin_context :: ActionContext where
  "admin_context =
     example_context\<lparr>ctx := (ctx example_context)\<lparr>permissions_check := (\<lambda>capability s. Inr True)\<rparr>\<rparr>"

text \<open>
  A handler that rejects with an \<open>ApiError\<close> whose message is the empty string, and the
  text Koishi prints for \<^verbatim>\<open>h('quote', { id: i })\<close>.
\<close>

definition rejecting_action :: "Argv \<Rightarrow> string command" where
  "rejecting_action argv w = (Inl (ApiError []), w)"

definition example_quote :: "string \<Rightarrow> string" where
  "example_quote i = ''<quote id='' @ [CHR 0x22] @ i @ [CHR 0x22] @ ''/>''"

section \<open>Request URLs\<close>

lemma takeWhile_eq_replicate:
  "takeWhile (\<lambda>x. x = c) xs = replicate (length (takeWhile (\<lambda>x. x = c) xs)) c"
  by (induction xs) auto

lemma strip_trailing_slashes_decomp:
  "\<exists>k. s = strip_trailing_slashes s @ replicate k (CHR ''/'')"
proof -
  let ?P = "\<lambda>c. c = CHR ''/''"
  have "rev s = takeWhile ?P (rev s) @ dropWhile ?P (rev s)" by simp
  then have "s = rev (dropWhile ?P (rev s)) @ rev (takeWhile ?P (rev s))"
    by (metis rev_append rev_rev_ident)
  moreover have "rev (takeWhile ?P (rev s)) = replicate (length (takeWhile ?P (rev s))) (CHR ''/'')"
    by (subst takeWhile_eq_replicate) simp
  ultimately show ?thesis
    unfolding strip_trailing_slashes_def by metis
qed

lemma strip_trailing_slashes_last:
  "strip_trailing_slashes s \<noteq> [] \<Longrightarrow> last (strip_trailing_slashes s) \<noteq> CHR ''/''"
  using hd_dropWhile [of "\<lambda>c. c = CHR ''/''" "rev s"]
  unfolding strip_trailing_slashes_def
  by (simp add: last_rev)

lemma strip_leading_slashes_decomp:
  "\<exists>k. s = replicate k (CHR ''/'') @ strip_leading_slashes s"
proof -
  let ?P = "\<lambda>c. c = CHR ''/''"
  have "s = takeWhile ?P s @ dropWhile ?P s" by simp
  moreover have "takeWhile ?P s = replicate (length (takeWhile ?P s)) (CHR ''/'')"
    by (rule takeWhile_eq_replicate)
  ultimately show ?thesis
    unfolding strip_leading_slashes_def by metis
qed

lemma strip_leading_slashes_hd:
  "strip_leading_slashes s \<noteq> [] \<Longrightarrow> hd (strip_leading_slashes s) \<noteq> CHR ''/''"
  using hd_dropWhile [of "\<lambda>c. c = CHR ''/''" s]
  unfolding strip_leading_slashes_def
  by simp

lemma makeUrl_example: "makeUrl ''http://host/'' ''/users'' = ''http://host/api/users''"
  by (simp add: makeUrl_def trimEnd.simps trimStart.simps trailing_ws_def leading_ws_def
      white_space_def strip_leading_slashes_def strip_trailing_slashes_def)

text \<open>
  Claim C9 says that the URL is the base, one \<open>/\<close> and the endpoint.  \<open>makeUrl\<close> puts the
  fixed segment \<open>/api/\<close> at the seam: for the base \<open>http://host/\<close> and the endpoint
  \<open>/users\<close> of \<open>register\<close> the URL is \<open>http://host/api/users\<close> and not
  \<open>http://host/users\<close>.
\<close>

theorem makeUrl_seam_counterexample:
  "makeUrl ''http://host/'' ''/users'' = ''http://host/api/users'' \<and>
   makeUrl ''http://host/'' ''/users'' \<noteq> ''http://host'' @ ''/'' @ ''users''"
  by (simp add: makeUrl_example)

text \<open>
  Claim C9, amended: for every base URL and endpoint, the request URL is \<open>b @ ''/api/'' @ e\<close>,
  where \<open>b\<close> is the base without its trailing white space and without the slashes it then
  ends with, and \<open>e\<close> is the endpoint without its leading white space and without the
  slashes it then starts with.  So \<open>b\<close> does not end with a slash and \<open>e\<close> does not start
  with one: exactly one slash stands on each side of \<open>api\<close>.
\<close>

theorem makeUrl_seam:
  "\<exists>b e j k.
     makeUrl baseUrl endpoint = b @ ''/api/'' @ e \<and>
     trimEnd baseUrl = b @ replicate j (CHR ''/'') \<and>
     \<not> (b \<noteq> [] \<and> last b = CHR ''/'') \<and>
     trimStart endpoint = replicate k (CHR ''/'') @ e \<and>
     \<not> (e \<noteq> [] \<and> hd e = CHR ''/'')"
proof -
  obtain j where j:
    "trimEnd baseUrl = strip_trailing_slashes (trimEnd baseUrl) @ replicate j (CHR ''/'')"
    using strip_trailing_slashes_decomp by blast
  obtain k where k:
    "trimStart endpoint = replicate k (CHR ''/'') @ strip_leading_slashes (trimStart endpoint)"
    using strip_leading_slashes_decomp by blast
  show ?thesis
    using j k strip_trailing_slashes_last strip_leading_slashes_hd
    unfolding makeUrl_def by blast
qed

text \<open>The amended claim at the base \<open>http://host/\<close> and the endpoint \<open>/users\<close>.\<close>

theorem makeUrl_seam_witness:
  "\<exists>b e j k.
     ''http://host/api/users'' = b @ ''/api/'' @ e \<and>
     trimEnd ''http://host/'' = b @ replicate j (CHR ''/'') \<and>
     \<not> (b \<noteq> [] \<and> last b = CHR ''/'') \<and>
     trimStart ''/users'' = replicate k (CHR ''/'') @ e \<and>
     \<not> (e \<noteq> [] \<and> hd e = CHR ''/'')"
  using makeUrl_seam [of "''http://host/''" "''/users''"]
  by (simp only: makeUrl_example)

section \<open>The billing preview\<close>

text \<open>The segment loop appends the lines of the segments with a cost of 0 or more.\<close>

lemma forEach_segments_filter:
  "forEach_segments segs message =
     message @ concat (map segment_lines (filter (\<lambda>seg. cost seg \<ge> 0) segs))"
  by (induction segs arbitrary: message) simp_all

subsection \<open>The final cost\<close>

text \<open>
  What \<open>formatBilling\<close> takes as the final cost: the overwrite when it is set and not 0,
  else the discounted cost when there is a discount, else the total cost.
\<close>

lemma finalCost_of_precedence:
  "finalCost_of res =
     (case costOverwrite (session res) of
        Some c \<Rightarrow>
          if c \<noteq> 0 then c
          else (case discount res of
                  Some d \<Rightarrow> discount_finalCost d
                | None \<Rightarrow> totalCost (billing res))
      | None \<Rightarrow>
          (case discount res of
             Some d \<Rightarrow> discount_finalCost d
           | None \<Rightarrow> totalCost (billing res)))"
  by (simp add: finalCost_of_def Let_def split: option.splits)

lemma final_cost_line_rendered:
  "final_cost_line (finalCost_of res) \<in> set (formatBilling_message res)"
  by (simp add: formatBilling_message_def message_before_segments_def Let_def
      forEach_segments_filter)

text \<open>The three values of the specification's example: 50, 80 and 100.\<close>

lemma cost_precedence_examples:
  "finalCost_of example_billing = 50"
  "finalCost_of
     (example_billing\<lparr>session := (session example_billing)\<lparr>costOverwrite := None\<rparr>\<rparr>) = 80"
  "finalCost_of
     (example_billing\<lparr>session := (session example_billing)\<lparr>costOverwrite := None\<rparr>,
                      discount := None\<rparr>) = 100"
  by (simp_all add: finalCost_of_def example_billing_def)

text \<open>
  Claim C2 says that the rendered final cost is \<open>session.costOverwrite\<close> whenever that
  field is set.  The test \<^verbatim>\<open>if (res.session.costOverwrite)\<close> is false for the number 0:
  with an overwrite of 0, no discount and a total cost of 100, \<open>formatBilling\<close> renders a
  final cost of 100.
\<close>

theorem costOverwrite_zero_ignored:
  "finalCost_of
     (res\<lparr>session := (session res)\<lparr>costOverwrite := Some 0\<rparr>,
          discount := None,
          billing := (billing res)\<lparr>totalCost := 100\<rparr>\<rparr>) = 100 \<and>
   final_cost_line 100 \<in> set (formatBilling_message
     (res\<lparr>session := (session res)\<lparr>costOverwrite := Some 0\<rparr>,
          discount := None,
          billing := (billing res)\<lparr>totalCost := 100\<rparr>\<rparr>))"
  by (simp add: finalCost_of_def formatBilling_message_def message_before_segments_def Let_def
      forEach_segments_filter)

subsection \<open>The segments\<close>

text \<open>The dates and numbers of the examples, as they are printed.\<close>

lemma example_date_texts:
  "formatDateTime (Some entered_at) = ''2025/01/10 08:00:00''"
  "formatDateTime (Some settled_at) = ''2025/01/10 12:30:00''"
  "formatDateTime (Some day_2025_01_15) = ''2025/01/15 00:00:00''"
  "formatTime entered_at = ''08:00:00''"
  "formatTime settled_at = ''12:30:00''"
  by (simp_all add: formatDateTime_def formatTime_def entered_at_def settled_at_def
      day_2025_01_15_def padStart2_def show_int_def show_nat.simps)

lemma example_numbers:
  "show_int 10 = ''10''" "show_int 20 = ''20''" "show_int 50 = ''50''" "show_int 60 = ''60''"
  "show_int 100 = ''100''" "show_int 240 = ''240''" "show_int 250 = ''250''"
  "show_int 300 = ''300''"
  by (simp_all add: show_int_def show_nat.simps)

text \<open>
  Claim C5: the text \<open>formatBilling\<close> returns is, line by line, the lines before the
  segments, then for a non-empty segment list the three lines of each segment with
  \<open>cost \<ge> 0\<close> (its rule name, its time range, its cost with the capped marker), in the order
  of the list, and then the lines about the monthly pass.  A segment with \<open>cost < 0\<close>
  contributes nothing: it is not among the rendered segments, and the lines before and
  after do not depend on the segment list at all.
\<close>

theorem segment_filtering:
  "formatBilling res =
     join NL
       (message_before_segments res @
        (if segments (billing res) = [] then [''  ('' @ zh_none @ '')'']
         else concat (map
                (\<lambda>seg. [''- '' @ ruleName seg,
                        ''  '' @ zh_period @ '': '' @ timeString seg,
                        ''  '' @ zh_fee @ '': '' @ show_int (cost seg) @ '' '' @ zh_mooncake @
                          '' '' @ (if isCapped seg then ''('' @ zh_capped @ '')'' else [])])
                (filter (\<lambda>seg. cost seg \<ge> 0) (segments (billing res))))) @
        pass_expiry_lines res) \<and>
   message_before_segments (res\<lparr>billing := (billing res)\<lparr>segments := segs\<rparr>\<rparr>) =
     message_before_segments res \<and>
   pass_expiry_lines (res\<lparr>billing := (billing res)\<lparr>segments := segs\<rparr>\<rparr>) =
     pass_expiry_lines res"
proof (intro conjI)
  have "segment_lines = (\<lambda>seg. [''- '' @ ruleName seg,
                        ''  '' @ zh_period @ '': '' @ timeString seg,
                        ''  '' @ zh_fee @ '': '' @ show_int (cost seg) @ '' '' @ zh_mooncake @
                          '' '' @ (if isCapped seg then ''('' @ zh_capped @ '')'' else [])])"
    by (rule ext) (simp add: segment_lines_def)
  then show "formatBilling res =
     join NL
       (message_before_segments res @
        (if segments (billing res) = [] then [''  ('' @ zh_none @ '')'']
         else concat (map
                (\<lambda>seg. [''- '' @ ruleName seg,
                        ''  '' @ zh_period @ '': '' @ timeString seg,
                        ''  '' @ zh_fee @ '': '' @ show_int (cost seg) @ '' '' @ zh_mooncake @
                          '' '' @ (if isCapped seg then ''('' @ zh_capped @ '')'' else [])])
                (filter (\<lambda>seg. cost seg \<ge> 0) (segments (billing res))))) @
        pass_expiry_lines res)"
    by (simp add: formatBilling_def formatBilling_message_def forEach_segments_filter Let_def
        no_segments_line_def)
  show "message_before_segments (res\<lparr>billing := (billing res)\<lparr>segments := segs\<rparr>\<rparr>) =
     message_before_segments res"
    by (simp add: message_before_segments_def originalCost_of_def finalCost_of_def Let_def
        split: option.splits)
  show "pass_expiry_lines (res\<lparr>billing := (billing res)\<lparr>segments := segs\<rparr>\<rparr>) =
     pass_expiry_lines res"
    by (simp add: pass_expiry_lines_def monthlyPass_of_def)
qed

text \<open>
  The example of the specification: of two segments costing -5 and 10, only the second
  is rendered.  The whole text of the preview, line by line.
\<close>

theorem segment_filtering_witness:
  "formatBilling example_billing =
     join NL
       [''--- '' @ zh_billing_details @ '' ---'',
        zh_entry @ '': 2025/01/10 08:00:00'',
        zh_settle @ '': 2025/01/10 12:30:00'',
        ''---'',
        zh_billed_price @ '': 100 '' @ zh_mooncake,
        zh_settle_price @ '': 50 '' @ zh_mooncake,
        ''---'',
        zh_current_balance @ '': 300 '' @ zh_mooncake,
        zh_after_deduction @ '': 250 '' @ zh_mooncake,
        ''---'',
        zh_billing_intervals @ '':'',
        ''- day'',
        ''  '' @ zh_period @ '': 08:00:00 - 12:30:00'',
        ''  '' @ zh_fee @ '': 10 '' @ zh_mooncake @ '' '']"
proof -
  have before: "message_before_segments example_billing =
       [''--- '' @ zh_billing_details @ '' ---'',
        zh_entry @ '': 2025/01/10 08:00:00'',
        zh_settle @ '': 2025/01/10 12:30:00'',
        ''---'',
        zh_billed_price @ '': 100 '' @ zh_mooncake,
        zh_settle_price @ '': 50 '' @ zh_mooncake,
        ''---'',
        zh_current_balance @ '': 300 '' @ zh_mooncake,
        zh_after_deduction @ '': 250 '' @ zh_mooncake,
        ''---'',
        zh_billing_intervals @ '':'']"
    by (simp add: message_before_segments_def example_billing_def example_wallet_def
        originalCost_of_def finalCost_of_def final_cost_line_def example_date_texts
        example_numbers Let_def)
  have pass: "pass_expiry_lines example_billing = []"
    by (simp add: pass_expiry_lines_def monthlyPass_of_def example_billing_def example_wallet_def)
  have segs: "segments (billing example_billing) = [example_segment (- 5), example_segment 10]"
    by (simp add: example_billing_def)
  have seg: "cost (example_segment c) = c" "ruleName (example_segment c) = ''day''"
    "isCapped (example_segment c) = False"
    "timeString (example_segment c) = ''08:00:00 - 12:30:00''" for c
    by (simp_all add: example_segment_def timeString_def same_day_def example_date_texts Let_def)
      (simp_all add: entered_at_def settled_at_def)
  from segment_filtering [of example_billing] show ?thesis
    by (simp add: before pass segs seg example_numbers)
qed

section \<open>The logout command and its confirmation\<close>

subsection \<open>One invocation\<close>

lemma with_target_resolved:
  "getTargetUserId context user = Inr \<lparr>error = None, target_userId = U\<rparr> \<Longrightarrow>
   with_target context user rest w = rest U w"
  by (simp add: with_target_def)

text \<open>
  The confirming branch: the entry is deleted, then the logout request is sent; the
  result is the receipt, or what the request rejected with.
\<close>

lemma logout_confirm_step:
  assumes "getTargetUserId context user = Inr \<lparr>error = None, target_userId = U\<rparr>"
    and "confirming (kv w U) now"
  shows "handleLogoutCmd now context user w =
           ((case http_post_logout (ctx context) (logout_url context U) of
               Inl e \<Rightarrow> Inl e
             | Inr res \<Rightarrow> Inr (receipt user U res)),
            \<lparr>kv = (kv w)(U := None),
             trace = trace w @ [KvDelete U, HttpPost (logout_url context U)]\<rparr>)"
  using assms
  by (simp add: handleLogoutCmd_def with_target_resolved service_logout_def kv_delete_def
      split: sum.splits)

text \<open>The preview branch when the billing request is answered, and when it is rejected.\<close>

lemma logout_preview_step:
  assumes "getTargetUserId context user = Inr \<lparr>error = None, target_userId = U\<rparr>"
    and "\<not> confirming (kv w U) now"
    and "http_get_billing (ctx context) (billing_url context U) = Inr b"
  shows "handleLogoutCmd now context user w =
           (Inr (preview user U (formatBilling b)),
            \<lparr>kv = (kv w)(U \<mapsto> now),
             trace = trace w @ [HttpGet (billing_url context U), KvSet U now]\<rparr>)"
  using assms
  by (simp add: handleLogoutCmd_def with_target_resolved service_billing_def kv_set_def)

lemma logout_preview_failed_step:
  assumes "getTargetUserId context user = Inr \<lparr>error = None, target_userId = U\<rparr>"
    and "\<not> confirming (kv w U) now"
    and "http_get_billing (ctx context) (billing_url context U) = Inl e"
  shows "handleLogoutCmd now context user w =
           (Inl e, \<lparr>kv = kv w, trace = trace w @ [HttpGet (billing_url context U)]\<rparr>)"
  using assms
  by (simp add: handleLogoutCmd_def with_target_resolved service_billing_def)

text \<open>The example member, and what the example service answers.\<close>

lemma example_target:
  "getTargetUserId example_context None = Inr \<lparr>error = None, target_userId = Some ''10001''\<rparr>"
  by (simp add: getTargetUserId_def example_context_def)

lemma offline_target:
  "getTargetUserId offline_context None = Inr \<lparr>error = None, target_userId = Some ''10001''\<rparr>"
  by (simp add: getTargetUserId_def offline_context_def example_context_def)

lemma example_denied:
  "getTargetUserId example_context (Some ''onebot:10002'') =
     Inr \<lparr>error = Some zh_insufficient_privilege, target_userId = None\<rparr>"
  by (simp add: getTargetUserId_def example_context_def)

lemma example_billing_answer:
  "http_get_billing (ctx example_context) u = Inr example_billing"
  by (simp add: example_context_def)

lemma example_logout_answer:
  "http_post_logout (ctx example_context) u = Inl (ApiError ''no open session'')"
  by (simp add: example_context_def)

lemma offline_billing_answer:
  "http_get_billing (ctx offline_context) u = Inl OtherError"
  by (simp add: offline_context_def)

lemma stale_stays_stale:
  "\<not> confirming p t \<Longrightarrow> 60000 \<le> d \<Longrightarrow> \<not> confirming p (t + d)"
  by (cases p) auto

subsection \<open>Sequences of invocations\<close>

text \<open>
  Claim C1 says that the first check records a pending entry and the check 30 seconds
  later confirms.  The entry is recorded after the awaited billing request
  (index.ts:184-186): when that request is rejected, the invocation at \<open>t\<close> throws and
  records nothing, and the invocation 30 seconds later is a preview again, with no
  deletion and no logout request.
\<close>

theorem confirmation_idempotence_counterexample:
  "handleLogoutCmd 1700000000000 offline_context None empty_world =
     (Inl OtherError,
      \<lparr>kv = Map.empty, trace = [HttpGet (billing_url offline_context (Some ''10001''))]\<rparr>) \<and>
   handleLogoutCmd 1700000030000 example_context None
     \<lparr>kv = Map.empty, trace = [HttpGet (billing_url offline_context (Some ''10001''))]\<rparr> =
     (Inr (preview None (Some ''10001'') (formatBilling example_billing)),
      \<lparr>kv = [Some ''10001'' \<mapsto> 1700000030000],
       trace = [HttpGet (billing_url offline_context (Some ''10001'')),
                HttpGet (billing_url example_context (Some ''10001'')),
                KvSet (Some ''10001'') 1700000030000]\<rparr>)"
proof
  have n1: "\<not> confirming (kv empty_world (Some ''10001'')) 1700000000000"
    by (simp add: empty_world_def)
  show "handleLogoutCmd 1700000000000 offline_context None empty_world =
     (Inl OtherError,
      \<lparr>kv = Map.empty, trace = [HttpGet (billing_url offline_context (Some ''10001''))]\<rparr>)"
    unfolding logout_preview_failed_step [OF offline_target n1 offline_billing_answer]
    by (simp add: empty_world_def)
  define w1 :: world where
    "w1 = \<lparr>kv = Map.empty, trace = [HttpGet (billing_url offline_context (Some ''10001''))]\<rparr>"
  have n2: "\<not> confirming (kv w1 (Some ''10001'')) 1700000030000"
    by (simp add: w1_def)
  show "handleLogoutCmd 1700000030000 example_context None
     \<lparr>kv = Map.empty, trace = [HttpGet (billing_url offline_context (Some ''10001''))]\<rparr> =
     (Inr (preview None (Some ''10001'') (formatBilling example_billing)),
      \<lparr>kv = [Some ''10001'' \<mapsto> 1700000030000],
       trace = [HttpGet (billing_url offline_context (Some ''10001'')),
                HttpGet (billing_url example_context (Some ''10001'')),
                KvSet (Some ''10001'') 1700000030000]\<rparr>)"
    unfolding w1_def [symmetric]
      logout_preview_step [OF example_target n2 example_billing_answer]
    by (simp add: w1_def)
qed

text \<open>
  Claim C1 (confirmation idempotence), amended.  Three invocations of the logout handler
  resolve to the same target user \<open>U\<close>, who has no pending entry; \<open>t\<close> is a reading of
  \<^verbatim>\<open>Date.now()\<close>, the milliseconds since the epoch, and so not 0; the second invocation
  comes \<open>d\<close> milliseconds after the first, with \<open>d\<close> below 60000 (30000 in the claim), and
  the third one millisecond after the second.  When the billing request of the first
  invocation is answered, that invocation returns the preview and records \<open>U \<mapsto> t\<close>; the
  invocation at \<open>t + d\<close> takes the confirming branch, whether the logout request is
  answered or rejected, and deletes the entry; the invocation at \<open>t + d + 1\<close> is a preview
  again, which records the new time when its billing request is answered and leaves the
  store without an entry when it is rejected.  When the billing request of the first
  invocation is rejected, that invocation throws the error and leaves the store as it
  was, so that the invocation at \<open>t + d\<close> does not confirm.
\<close>

theorem confirmation_idempotence:
  assumes r1: "getTargetUserId c1 u1 = Inr \<lparr>error = None, target_userId = U\<rparr>"
    and r2: "getTargetUserId c2 u2 = Inr \<lparr>error = None, target_userId = U\<rparr>"
    and r3: "getTargetUserId c3 u3 = Inr \<lparr>error = None, target_userId = U\<rparr>"
    and fresh: "kv w U = None"
    and clock: "t \<noteq> 0"
    and age: "d < 60000"
  shows "(\<forall>b1. http_get_billing (ctx c1) (billing_url c1 U) = Inr b1 \<longrightarrow>
           (\<exists>w1 w2.
              handleLogoutCmd t c1 u1 w = (Inr (preview u1 U (formatBilling b1)), w1) \<and>
              kv w1 U = Some t \<and>
              handleLogoutCmd (t + d) c2 u2 w1 =
                ((case http_post_logout (ctx c2) (logout_url c2 U) of
                    Inl e \<Rightarrow> Inl e
                  | Inr res \<Rightarrow> Inr (receipt u2 U res)), w2) \<and>
              kv w2 U = None \<and>
              trace w2 = trace w @
                [HttpGet (billing_url c1 U), KvSet U t, KvDelete U, HttpPost (logout_url c2 U)] \<and>
              handleLogoutCmd (t + d + 1) c3 u3 w2 =
                (case http_get_billing (ctx c3) (billing_url c3 U) of
                   Inl e \<Rightarrow>
                     (Inl e, \<lparr>kv = kv w2, trace = trace w2 @ [HttpGet (billing_url c3 U)]\<rparr>)
                 | Inr b3 \<Rightarrow>
                     (Inr (preview u3 U (formatBilling b3)),
                      \<lparr>kv = (kv w2)(U \<mapsto> t + d + 1),
                       trace = trace w2 @
                         [HttpGet (billing_url c3 U), KvSet U (t + d + 1)]\<rparr>)))) \<and>
         (\<forall>e. http_get_billing (ctx c1) (billing_url c1 U) = Inl e \<longrightarrow>
           (\<exists>w1.
              handleLogoutCmd t c1 u1 w = (Inl e, w1) \<and>
              kv w1 = kv w \<and>
              trace w1 = trace w @ [HttpGet (billing_url c1 U)] \<and>
              \<not> confirming (kv w1 U) (t + d)))"
proof (intro conjI allI impI)
  fix b1
  assume b1: "http_get_billing (ctx c1) (billing_url c1 U) = Inr b1"
  define w1 where
    "w1 = \<lparr>kv = (kv w)(U \<mapsto> t), trace = trace w @ [HttpGet (billing_url c1 U), KvSet U t]\<rparr>"
  define w2 where
    "w2 = \<lparr>kv = (kv w1)(U := None), trace = trace w1 @ [KvDelete U, HttpPost (logout_url c2 U)]\<rparr>"
  have s1: "handleLogoutCmd t c1 u1 w = (Inr (preview u1 U (formatBilling b1)), w1)"
    unfolding w1_def using fresh by (intro logout_preview_step [OF r1 _ b1]) simp
  have k1: "kv w1 U = Some t" by (simp add: w1_def)
  have "confirming (kv w1 U) (t + d)" using clock age by (simp add: k1)
  then have s2: "handleLogoutCmd (t + d) c2 u2 w1 =
             ((case http_post_logout (ctx c2) (logout_url c2 U) of
                 Inl e \<Rightarrow> Inl e
               | Inr res \<Rightarrow> Inr (receipt u2 U res)), w2)"
    unfolding w2_def by (rule logout_confirm_step [OF r2])
  have k2: "kv w2 U = None" by (simp add: w2_def)
  then have n: "\<not> confirming (kv w2 U) (t + d + 1)" by simp
  have tr: "trace w2 = trace w @
      [HttpGet (billing_url c1 U), KvSet U t, KvDelete U, HttpPost (logout_url c2 U)]"
    by (simp add: w2_def w1_def)
  have s3: "handleLogoutCmd (t + d + 1) c3 u3 w2 =
      (case http_get_billing (ctx c3) (billing_url c3 U) of
         Inl e \<Rightarrow>
           (Inl e, \<lparr>kv = kv w2, trace = trace w2 @ [HttpGet (billing_url c3 U)]\<rparr>)
       | Inr b3 \<Rightarrow>
           (Inr (preview u3 U (formatBilling b3)),
            \<lparr>kv = (kv w2)(U \<mapsto> t + d + 1),
             trace = trace w2 @ [HttpGet (billing_url c3 U), KvSet U (t + d + 1)]\<rparr>))"
    by (cases "http_get_billing (ctx c3) (billing_url c3 U)")
      (simp_all add: logout_preview_step [OF r3 n] logout_preview_failed_step [OF r3 n])
  from s1 k1 s2 k2 tr s3
  show "\<exists>w1 w2.
              handleLogoutCmd t c1 u1 w = (Inr (preview u1 U (formatBilling b1)), w1) \<and>
              kv w1 U = Some t \<and>
              handleLogoutCmd (t + d) c2 u2 w1 =
                ((case http_post_logout (ctx c2) (logout_url c2 U) of
                    Inl e \<Rightarrow> Inl e
                  | Inr res \<Rightarrow> Inr (receipt u2 U res)), w2) \<and>
              kv w2 U = None \<and>
              trace w2 = trace w @
                [HttpGet (billing_url c1 U), KvSet U t, KvDelete U, HttpPost (logout_url c2 U)] \<and>
              handleLogoutCmd (t + d + 1) c3 u3 w2 =
                (case http_get_billing (ctx c3) (billing_url c3 U) of
                   Inl e \<Rightarrow>
                     (Inl e, \<lparr>kv = kv w2, trace = trace w2 @ [HttpGet (billing_url c3 U)]\<rparr>)
                 | Inr b3 \<Rightarrow>
                     (Inr (preview u3 U (formatBilling b3)),
                      \<lparr>kv = (kv w2)(U \<mapsto> t + d + 1),
                       trace = trace w2 @
                         [HttpGet (billing_url c3 U), KvSet U (t + d + 1)]\<rparr>))"
    by blast
next
  fix e
  assume failed: "http_get_billing (ctx c1) (billing_url c1 U) = Inl e"
  have n: "\<not> confirming (kv w U) t" using fresh by simp
  define w1 where "w1 = \<lparr>kv = kv w, trace = trace w @ [HttpGet (billing_url c1 U)]\<rparr>"
  have "handleLogoutCmd t c1 u1 w = (Inl e, w1)"
    unfolding w1_def by (rule logout_preview_failed_step [OF r1 n failed])
  moreover have "kv w1 = kv w" "trace w1 = trace w @ [HttpGet (billing_url c1 U)]"
    by (simp_all add: w1_def)
  moreover have "\<not> confirming (kv w1 U) (t + d)" using fresh by (simp add: w1_def)
  ultimately show "\<exists>w1.
              handleLogoutCmd t c1 u1 w = (Inl e, w1) \<and>
              kv w1 = kv w \<and>
              trace w1 = trace w @ [HttpGet (billing_url c1 U)] \<and>
              \<not> confirming (kv w1 U) (t + d)"
    by blast
qed

text \<open>
  The three invocations of the example member, starting at 1700000000000 with an empty
  store (the example service rejects the logout request), and the first invocation when
  the billing endpoint cannot be reached.
\<close>

theorem confirmation_idempotence_witness:
  "(\<exists>w1 w2.
      handleLogoutCmd 1700000000000 example_context None empty_world =
        (Inr (preview None (Some ''10001'') (formatBilling example_billing)), w1) \<and>
      kv w1 (Some ''10001'') = Some 1700000000000 \<and>
      handleLogoutCmd 1700000030000 example_context None w1 =
        (Inl (ApiError ''no open session''), w2) \<and>
      kv w2 (Some ''10001'') = None \<and>
      handleLogoutCmd 1700000030001 example_context None w2 =
        (Inr (preview None (Some ''10001'') (formatBilling example_billing)),
         \<lparr>kv = (kv w2)(Some ''10001'' \<mapsto> 1700000030001),
          trace = trace w2 @
            [HttpGet (billing_url example_context (Some ''10001'')),
             KvSet (Some ''10001'') 1700000030001]\<rparr>)) \<and>
   (\<exists>w1.
      handleLogoutCmd 1700000000000 offline_context None empty_world = (Inl OtherError, w1) \<and>
      kv w1 = kv empty_world \<and>
      \<not> confirming (kv w1 (Some ''10001'')) 1700000030000)"
proof
  have fresh: "kv empty_world (Some ''10001'') = None" by (simp add: empty_world_def)
  have clock: "(1700000000000 :: int) \<noteq> 0" by simp
  have age: "(30000 :: int) < 60000" by simp
  from confirmation_idempotence [OF example_target example_target example_target fresh clock age]
  have "\<exists>w1 w2.
      handleLogoutCmd 1700000000000 example_context None empty_world =
        (Inr (preview None (Some ''10001'') (formatBilling example_billing)), w1) \<and>
      kv w1 (Some ''10001'') = Some 1700000000000 \<and>
      handleLogoutCmd (1700000000000 + 30000) example_context None w1 =
        (Inl (ApiError ''no open session''), w2) \<and>
      kv w2 (Some ''10001'') = None \<and>
      handleLogoutCmd (1700000000000 + 30000 + 1) example_context None w2 =
        (Inr (preview None (Some ''10001'') (formatBilling example_billing)),
         \<lparr>kv = (kv w2)(Some ''10001'' \<mapsto> 1700000000000 + 30000 + 1),
          trace = trace w2 @
            [HttpGet (billing_url example_context (Some ''10001'')),
             KvSet (Some ''10001'') (1700000000000 + 30000 + 1)]\<rparr>)"
    unfolding example_logout_answer example_billing_answer by fastforce
  then show "\<exists>w1 w2.
      handleLogoutCmd 1700000000000 example_context None empty_world =
        (Inr (preview None (Some ''10001'') (formatBilling example_billing)), w1) \<and>
      kv w1 (Some ''10001'') = Some 1700000000000 \<and>
      handleLogoutCmd 1700000030000 example_context None w1 =
        (Inl (ApiError ''no open session''), w2) \<and>
      kv w2 (Some ''10001'') = None \<and>
      handleLogoutCmd 1700000030001 example_context None w2 =
        (Inr (preview None (Some ''10001'') (formatBilling example_billing)),
         \<lparr>kv = (kv w2)(Some ''10001'' \<mapsto> 1700000030001),
          trace = trace w2 @
            [HttpGet (billing_url example_context (Some ''10001'')),
             KvSet (Some ''10001'') 1700000030001]\<rparr>)"
    by simp
  from confirmation_idempotence [OF offline_target example_target example_target fresh clock age]
  show "\<exists>w1.
      handleLogoutCmd 1700000000000 offline_context None empty_world = (Inl OtherError, w1) \<and>
      kv w1 = kv empty_world \<and>
      \<not> confirming (kv w1 (Some ''10001'')) 1700000030000"
    unfolding offline_billing_answer by fastforce
qed

text \<open>
  Claim C3 says that the second check, 61 seconds after the first, records a fresh entry
  with the new time.  When the billing request of the second invocation is rejected, the
  invocation throws before \<^verbatim>\<open>kv.set\<close> and the entry keeps the time of the first check.
\<close>

theorem ttl_expiry_counterexample:
  "handleLogoutCmd 1700000000000 example_context None empty_world =
     (Inr (preview None (Some ''10001'') (formatBilling example_billing)),
      \<lparr>kv = [Some ''10001'' \<mapsto> 1700000000000],
       trace = [HttpGet (billing_url example_context (Some ''10001'')),
                KvSet (Some ''10001'') 1700000000000]\<rparr>) \<and>
   handleLogoutCmd 1700000061000 offline_context None
     \<lparr>kv = [Some ''10001'' \<mapsto> 1700000000000],
      trace = [HttpGet (billing_url example_context (Some ''10001'')),
               KvSet (Some ''10001'') 1700000000000]\<rparr> =
     (Inl OtherError,
      \<lparr>kv = [Some ''10001'' \<mapsto> 1700000000000],
       trace = [HttpGet (billing_url example_context (Some ''10001'')),
                KvSet (Some ''10001'') 1700000000000,
                HttpGet (billing_url offline_context (Some ''10001''))]\<rparr>)"
proof
  have n1: "\<not> confirming (kv empty_world (Some ''10001'')) 1700000000000"
    by (simp add: empty_world_def)
  show "handleLogoutCmd 1700000000000 example_context None empty_world =
     (Inr (preview None (Some ''10001'') (formatBilling example_billing)),
      \<lparr>kv = [Some ''10001'' \<mapsto> 1700000000000],
       trace = [HttpGet (billing_url example_context (Some ''10001'')),
                KvSet (Some ''10001'') 1700000000000]\<rparr>)"
    unfolding logout_preview_step [OF example_target n1 example_billing_answer]
    by (simp add: empty_world_def)
  define w1 :: world where
    "w1 = \<lparr>kv = [Some ''10001'' \<mapsto> 1700000000000],
      trace = [HttpGet (billing_url example_context (Some ''10001'')),
               KvSet (Some ''10001'') 1700000000000]\<rparr>"
  have n2: "\<not> confirming (kv w1 (Some ''10001'')) 1700000061000"
    by (simp add: w1_def)
  show "handleLogoutCmd 1700000061000 offline_context None
     \<lparr>kv = [Some ''10001'' \<mapsto> 1700000000000],
      trace = [HttpGet (billing_url example_context (Some ''10001'')),
               KvSet (Some ''10001'') 1700000000000]\<rparr> =
     (Inl OtherError,
      \<lparr>kv = [Some ''10001'' \<mapsto> 1700000000000],
       trace = [HttpGet (billing_url example_context (Some ''10001'')),
                KvSet (Some ''10001'') 1700000000000,
                HttpGet (billing_url offline_context (Some ''10001''))]\<rparr>)"
    unfolding w1_def [symmetric]
      logout_preview_failed_step [OF offline_target n2 offline_billing_answer]
    by (simp add: w1_def)
qed

text \<open>
  Claim C3 (expiry of the window), amended.  Two invocations resolve to the same target
  user \<open>U\<close>, who has no entry that would confirm at \<open>t\<close> (in particular, no entry at all);
  the second invocation comes \<open>d\<close> milliseconds after the first, with \<open>d\<close> at least 60000
  (61000 in the claim).  Then both invocations take the preview branch: each sends the
  billing request and nothing else, and no entry of \<open>U\<close> confirms at \<open>t + d\<close>.  Each
  returns the preview and records its own time for \<open>U\<close> when its billing request is
  answered, and throws the error and leaves the store as it was when the request is
  rejected.
\<close>

theorem ttl_expiry:
  assumes r1: "getTargetUserId c1 u1 = Inr \<lparr>error = None, target_userId = U\<rparr>"
    and r2: "getTargetUserId c2 u2 = Inr \<lparr>error = None, target_userId = U\<rparr>"
    and fresh: "\<not> confirming (kv w U) t"
    and age: "60000 \<le> d"
  shows "\<exists>w1 w2.
           handleLogoutCmd t c1 u1 w =
             ((case http_get_billing (ctx c1) (billing_url c1 U) of
                 Inl e \<Rightarrow> Inl e
               | Inr b \<Rightarrow> Inr (preview u1 U (formatBilling b))), w1) \<and>
           w1 =
             \<lparr>kv = (case http_get_billing (ctx c1) (billing_url c1 U) of
                      Inl e \<Rightarrow> kv w
                    | Inr b \<Rightarrow> (kv w)(U \<mapsto> t)),
              trace = trace w @ HttpGet (billing_url c1 U) #
                      (case http_get_billing (ctx c1) (billing_url c1 U) of
                         Inl e \<Rightarrow> []
                       | Inr b \<Rightarrow> [KvSet U t])\<rparr> \<and>
           \<not> confirming (kv w1 U) (t + d) \<and>
           handleLogoutCmd (t + d) c2 u2 w1 =
             ((case http_get_billing (ctx c2) (billing_url c2 U) of
                 Inl e \<Rightarrow> Inl e
               | Inr b \<Rightarrow> Inr (preview u2 U (formatBilling b))), w2) \<and>
           w2 =
             \<lparr>kv = (case http_get_billing (ctx c2) (billing_url c2 U) of
                      Inl e \<Rightarrow> kv w1
                    | Inr b \<Rightarrow> (kv w1)(U \<mapsto> t + d)),
              trace = trace w1 @ HttpGet (billing_url c2 U) #
                      (case http_get_billing (ctx c2) (billing_url c2 U) of
                         Inl e \<Rightarrow> []
                       | Inr b \<Rightarrow> [KvSet U (t + d)])\<rparr>"
proof -
  define w1 where "w1 =
             \<lparr>kv = (case http_get_billing (ctx c1) (billing_url c1 U) of
                      Inl e \<Rightarrow> kv w
                    | Inr b \<Rightarrow> (kv w)(U \<mapsto> t)),
              trace = trace w @ HttpGet (billing_url c1 U) #
                      (case http_get_billing (ctx c1) (billing_url c1 U) of
                         Inl e \<Rightarrow> []
                       | Inr b \<Rightarrow> [KvSet U t])\<rparr>"
  define w2 where "w2 =
             \<lparr>kv = (case http_get_billing (ctx c2) (billing_url c2 U) of
                      Inl e \<Rightarrow> kv w1
                    | Inr b \<Rightarrow> (kv w1)(U \<mapsto> t + d)),
              trace = trace w1 @ HttpGet (billing_url c2 U) #
                      (case http_get_billing (ctx c2) (billing_url c2 U) of
                         Inl e \<Rightarrow> []
                       | Inr b \<Rightarrow> [KvSet U (t + d)])\<rparr>"
  have s1: "handleLogoutCmd t c1 u1 w =
             ((case http_get_billing (ctx c1) (billing_url c1 U) of
                 Inl e \<Rightarrow> Inl e
               | Inr b \<Rightarrow> Inr (preview u1 U (formatBilling b))), w1)"
    unfolding w1_def
    by (cases "http_get_billing (ctx c1) (billing_url c1 U)")
      (simp_all add: logout_preview_step [OF r1 fresh] logout_preview_failed_step [OF r1 fresh])
  have stale: "\<not> confirming (kv w1 U) (t + d)"
  proof (cases "http_get_billing (ctx c1) (billing_url c1 U)")
    case (Inl e)
    then show ?thesis using stale_stays_stale [OF fresh age] by (simp add: w1_def)
  next
    case (Inr b)
    then show ?thesis using age by (simp add: w1_def)
  qed
  have s2: "handleLogoutCmd (t + d) c2 u2 w1 =
             ((case http_get_billing (ctx c2) (billing_url c2 U) of
                 Inl e \<Rightarrow> Inl e
               | Inr b \<Rightarrow> Inr (preview u2 U (formatBilling b))), w2)"
    unfolding w2_def
    by (cases "http_get_billing (ctx c2) (billing_url c2 U)")
      (simp_all add: logout_preview_step [OF r2 stale] logout_preview_failed_step [OF r2 stale])
  from s1 stale s2 show ?thesis unfolding w1_def w2_def by blast
qed

text \<open>The two invocations of the example member, 61 seconds apart, both answered.\<close>

theorem ttl_expiry_witness:
  "\<not> confirming (kv empty_world (Some ''10001'')) 1700000000000 \<and>
   (\<exists>w1 w2.
      handleLogoutCmd 1700000000000 example_context None empty_world =
        (Inr (preview None (Some ''10001'') (formatBilling example_billing)), w1) \<and>
      kv w1 (Some ''10001'') = Some 1700000000000 \<and>
      handleLogoutCmd 1700000061000 example_context None w1 =
        (Inr (preview None (Some ''10001'') (formatBilling example_billing)), w2) \<and>
      kv w2 (Some ''10001'') = Some 1700000061000 \<and>
      trace w2 =
        [HttpGet (billing_url example_context (Some ''10001'')),
         KvSet (Some ''10001'') 1700000000000,
         HttpGet (billing_url example_context (Some ''10001'')),
         KvSet (Some ''10001'') 1700000061000])"
proof -
  have fresh: "\<not> confirming (kv empty_world (Some ''10001'')) 1700000000000"
    by (simp add: empty_world_def)
  have age: "(60000 :: int) \<le> 61000" by simp
  from ttl_expiry [OF example_target example_target fresh age]
  show ?thesis
    unfolding example_billing_answer using fresh by (simp add: empty_world_def)
qed

subsection \<open>What one invocation does to the store\<close>

text \<open>
  Claim C4 says that every invocation deletes or records the target's entry, also when
  the remote call fails.  When the billing request of a preview is rejected, the
  handler throws before \<^verbatim>\<open>kv.set\<close>: an entry that is 100 seconds old is neither deleted
  nor refreshed.
\<close>

theorem logout_store_update_counterexample:
  "fst (handleLogoutCmd 1700000100000 offline_context None pending_world) = Inl OtherError \<and>
   kv (snd (handleLogoutCmd 1700000100000 offline_context None pending_world)) (Some ''10001'') =
     Some 1700000000000"
proof -
  have stale: "\<not> confirming (kv pending_world (Some ''10001'')) 1700000100000"
    by (simp add: pending_world_def)
  have failed: "http_get_billing (ctx offline_context)
      (billing_url offline_context (Some ''10001'')) = Inl OtherError"
    by (simp add: offline_context_def)
  show ?thesis
    unfolding logout_preview_failed_step [OF offline_target stale failed]
    by (simp add: pending_world_def)
qed

text \<open>
  Claim C4, amended: an invocation that resolves its target \<open>U\<close> deletes the entry of \<open>U\<close>
  in the confirming branch, whether the logout request is answered or rejected; in the
  preview branch it records \<open>U \<mapsto> now\<close> when the billing request is answered and leaves
  the store as it is when the request is rejected.  An invocation that does not resolve a
  target (the permission check throws, or denies the caller) changes nothing.
\<close>

theorem logout_store_update:
  "(getTargetUserId c u = Inr \<lparr>error = None, target_userId = U\<rparr> \<longrightarrow>
      kv (snd (handleLogoutCmd now c u w)) =
        (if confirming (kv w U) now then (kv w)(U := None)
         else (case http_get_billing (ctx c) (billing_url c U) of
                 Inr b \<Rightarrow> (kv w)(U \<mapsto> now)
               | Inl e \<Rightarrow> kv w))) \<and>
   ((\<exists>e. getTargetUserId c u = Inl e) \<or>
    getTargetUserId c u = Inr \<lparr>error = Some zh_insufficient_privilege, target_userId = None\<rparr> \<longrightarrow>
      snd (handleLogoutCmd now c u w) = w)"
proof (intro conjI impI)
  assume r: "getTargetUserId c u = Inr \<lparr>error = None, target_userId = U\<rparr>"
  show "kv (snd (handleLogoutCmd now c u w)) =
        (if confirming (kv w U) now then (kv w)(U := None)
         else (case http_get_billing (ctx c) (billing_url c U) of
                 Inr b \<Rightarrow> (kv w)(U \<mapsto> now)
               | Inl e \<Rightarrow> kv w))"
  proof (cases "confirming (kv w U) now")
    case True
    then show ?thesis by (simp add: logout_confirm_step [OF r])
  next
    case False
    then show ?thesis
      by (cases "http_get_billing (ctx c) (billing_url c U)")
        (simp_all add: logout_preview_step [OF r] logout_preview_failed_step [OF r])
  qed
next
  assume "(\<exists>e. getTargetUserId c u = Inl e) \<or>
    getTargetUserId c u = Inr \<lparr>error = Some zh_insufficient_privilege, target_userId = None\<rparr>"
  then show "snd (handleLogoutCmd now c u w) = w"
    by (auto simp: handleLogoutCmd_def with_target_def zh_insufficient_privilege_def)
qed

text \<open>
  The four cases at the example member with a pending request: a confirmation, a preview
  after the window, a preview that cannot reach the service, and a request for another
  user without the admin capability.
\<close>

theorem logout_store_update_witness:
  "kv (snd (handleLogoutCmd 1700000030000 example_context None pending_world)) =
     (kv pending_world)(Some ''10001'' := None) \<and>
   kv (snd (handleLogoutCmd 1700000100000 example_context None pending_world)) =
     (kv pending_world)(Some ''10001'' \<mapsto> 1700000100000) \<and>
   kv (snd (handleLogoutCmd 1700000100000 offline_context None pending_world)) =
     kv pending_world \<and>
   snd (handleLogoutCmd 1700000030000 example_context (Some ''onebot:10002'') pending_world) =
     pending_world"
proof (intro conjI)
  have k: "kv pending_world (Some ''10001'') = Some 1700000000000"
    by (simp add: pending_world_def)
  show "kv (snd (handleLogoutCmd 1700000030000 example_context None pending_world)) =
     (kv pending_world)(Some ''10001'' := None)"
    using logout_store_update
      [of example_context None "Some ''10001''" 1700000030000 pending_world]
    by (simp add: example_target k)
  show "kv (snd (handleLogoutCmd 1700000100000 example_context None pending_world)) =
     (kv pending_world)(Some ''10001'' \<mapsto> 1700000100000)"
    using logout_store_update
      [of example_context None "Some ''10001''" 1700000100000 pending_world]
    by (simp add: example_target k example_billing_answer)
  show "kv (snd (handleLogoutCmd 1700000100000 offline_context None pending_world)) =
     kv pending_world"
    using logout_store_update
      [of offline_context None "Some ''10001''" 1700000100000 pending_world]
    by (simp add: offline_target k) (simp add: offline_context_def)
  show "snd (handleLogoutCmd 1700000030000 example_context (Some ''onebot:10002'') pending_world) =
     pending_world"
    using logout_store_update
      [of example_context "Some ''onebot:10002''" None 1700000030000 pending_world]
    by (simp add: example_denied)
qed

text \<open>
  Claim C10: in the confirming branch the entry is deleted before the logout request is
  sent (the trace has \<open>KvDelete\<close> before \<open>HttpPost\<close>).  So when that request is rejected
  with \<open>e\<close>, the handler throws \<open>e\<close> and the entry of \<open>U\<close> is gone; the next invocation for
  \<open>U\<close>, at any time \<open>now2\<close>, sends a billing request and not a logout request: it is a new
  preview, which records \<open>U \<mapsto> now2\<close> when the billing request is answered.
\<close>

theorem failed_logout_consumes_confirmation:
  assumes r1: "getTargetUserId c1 u1 = Inr \<lparr>error = None, target_userId = U\<rparr>"
    and r2: "getTargetUserId c2 u2 = Inr \<lparr>error = None, target_userId = U\<rparr>"
    and pending: "confirming (kv w U) now"
    and failed: "http_post_logout (ctx c1) (logout_url c1 U) = Inl e"
  shows "\<exists>w1.
           handleLogoutCmd now c1 u1 w = (Inl e, w1) \<and>
           kv w1 U = None \<and>
           trace w1 = trace w @ [KvDelete U, HttpPost (logout_url c1 U)] \<and>
           handleLogoutCmd now2 c2 u2 w1 =
             (case http_get_billing (ctx c2) (billing_url c2 U) of
                Inl e2 \<Rightarrow>
                  (Inl e2, \<lparr>kv = kv w1, trace = trace w1 @ [HttpGet (billing_url c2 U)]\<rparr>)
              | Inr b \<Rightarrow>
                  (Inr (preview u2 U (formatBilling b)),
                   \<lparr>kv = (kv w1)(U \<mapsto> now2),
                    trace = trace w1 @ [HttpGet (billing_url c2 U), KvSet U now2]\<rparr>))"
proof -
  define w1 where
    "w1 = \<lparr>kv = (kv w)(U := None), trace = trace w @ [KvDelete U, HttpPost (logout_url c1 U)]\<rparr>"
  have s1: "handleLogoutCmd now c1 u1 w = (Inl e, w1)"
    unfolding w1_def by (simp add: logout_confirm_step [OF r1 pending] failed)
  have k1: "kv w1 U = None" by (simp add: w1_def)
  then have n: "\<not> confirming (kv w1 U) now2" by simp
  have s2: "handleLogoutCmd now2 c2 u2 w1 =
             (case http_get_billing (ctx c2) (billing_url c2 U) of
                Inl e2 \<Rightarrow>
                  (Inl e2, \<lparr>kv = kv w1, trace = trace w1 @ [HttpGet (billing_url c2 U)]\<rparr>)
              | Inr b \<Rightarrow>
                  (Inr (preview u2 U (formatBilling b)),
                   \<lparr>kv = (kv w1)(U \<mapsto> now2),
                    trace = trace w1 @ [HttpGet (billing_url c2 U), KvSet U now2]\<rparr>))"
    by (cases "http_get_billing (ctx c2) (billing_url c2 U)")
      (simp_all add: logout_preview_step [OF r2 n] logout_preview_failed_step [OF r2 n])
  have "trace w1 = trace w @ [KvDelete U, HttpPost (logout_url c1 U)]" by (simp add: w1_def)
  with s1 k1 s2 show ?thesis by blast
qed

text \<open>
  The example member confirms within the window and the example service rejects the
  logout request: the entry is gone, and the next invocation is a preview.
\<close>

theorem failed_logout_consumes_confirmation_witness:
  "confirming (kv pending_world (Some ''10001'')) 1700000030000 \<and>
   (\<exists>w1.
      handleLogoutCmd 1700000030000 example_context None pending_world =
        (Inl (ApiError ''no open session''), w1) \<and>
      kv w1 (Some ''10001'') = None \<and>
      trace w1 = [KvDelete (Some ''10001''),
                  HttpPost (logout_url example_context (Some ''10001''))] \<and>
      handleLogoutCmd 1700000030001 example_context None w1 =
        (Inr (preview None (Some ''10001'') (formatBilling example_billing)),
         \<lparr>kv = (kv w1)(Some ''10001'' \<mapsto> 1700000030001),
          trace = trace w1 @
            [HttpGet (billing_url example_context (Some ''10001'')),
             KvSet (Some ''10001'') 1700000030001]\<rparr>))"
proof -
  have pending: "confirming (kv pending_world (Some ''10001'')) 1700000030000"
    by (simp add: pending_world_def)
  from failed_logout_consumes_confirmation [OF example_target example_target pending
      example_logout_answer, of 1700000030001]
  show ?thesis
    using pending by (simp add: example_billing_answer pending_world_def)
qed

section \<open>The wallet: the asset that expires first\<close>



text \<open>
  \<open>sort_by_expiry\<close> is the stable ascending sort the comparator asks for: the result is
  ordered by expiry time, and the assets with one expiry time keep their order.
\<close>

lemma sort_by_expiry_stable:
  "sorted (map expiry_time (sort_by_expiry xs))"
  "filter (\<lambda>a. expiry_time a = k) (sort_by_expiry xs) = filter (\<lambda>a. expiry_time a = k) xs"
  by (simp_all add: sort_by_expiry_def sort_key_stable)











section \<open>The target user\<close>

lemma split_without_separator: "sep \<notin> set s \<Longrightarrow> split sep s = [s]"
  by (induction s) auto

lemma split_at_first_separator: "sep \<notin> set p \<Longrightarrow> split sep (p @ sep # r) = p # split sep r"
  by (induction p) auto

text \<open>
  For an argument \<open>platform:id\<close> with one colon, the target is the id: the argument
  without its prefix.
\<close>

lemma target_of_platform_id:
  "CHR '':'' \<notin> set p \<Longrightarrow> CHR '':'' \<notin> set i \<Longrightarrow>
   index (split (CHR '':'') (p @ '':'' @ i)) 1 = Some i"
  by (simp add: split_at_first_separator split_without_separator index_def)

text \<open>
  When a target is given and the permission check denies the caller, the logout, wallet
  and billing handlers return the fixed string and leave the state, and with it the
  trace, as it is: no request is sent.
\<close>

lemma denied_commands_make_no_call:
  assumes "u \<noteq> []"
    and "permissions_check (ctx context) (admin (config context)) (context_session context) =
           Inr False"
  shows "handleLogoutCmd now context (Some u) w = (Inr zh_insufficient_privilege, w)"
    and "handleWalletCmd context (Some u) w = (Inr zh_insufficient_privilege, w)"
    and "handleBillingCmd context (Some u) w = (Inr zh_insufficient_privilege, w)"
  using assms
  by (simp_all add: handleLogoutCmd_def handleWalletCmd_def handleBillingCmd_def with_target_def
      getTargetUserId_def zh_insufficient_privilege_def)

lemma admin_target:
  "getTargetUserId admin_context (Some ''matrix:@alice:example.org'') =
     Inr \<lparr>error = None, target_userId = Some ''@alice''\<rparr>"
  by (simp add: getTargetUserId_def admin_context_def example_context_def index_def)

lemma admin_billing_url:
  "billing_url admin_context (Some ''@alice'') = ''http://host/api/users/QQ:@alice/billing''"
  by (simp add: billing_url_def admin_context_def example_context_def makeUrl_def
      trimEnd.simps trimStart.simps trailing_ws_def leading_ws_def white_space_def
      strip_leading_slashes_def strip_trailing_slashes_def)

text \<open>
  Claim C7 says that the target is the argument with the text up to the first colon
  stripped.  \<^verbatim>\<open>user.split(':')[1]\<close> is the text between the first and the second colon:
  for the argument \<open>matrix:@alice:example.org\<close> of a caller with the admin capability the
  target is \<open>@alice\<close>, not \<open>@alice:example.org\<close>, and the logout handler asks the
  service for the billing of \<open>QQ:@alice\<close>.
\<close>

theorem target_id_second_field_only:
  "getTargetUserId admin_context (Some ''matrix:@alice:example.org'') =
     Inr \<lparr>error = None, target_userId = Some ''@alice''\<rparr> \<and>
   trace (snd (handleLogoutCmd 1700000000000 admin_context (Some ''matrix:@alice:example.org'')
                 empty_world)) =
     [HttpGet ''http://host/api/users/QQ:@alice/billing'',
      KvSet (Some ''@alice'') 1700000000000]"
proof -
  have fresh: "\<not> confirming (kv empty_world (Some ''@alice'')) 1700000000000"
    by (simp add: empty_world_def)
  have answer:
    "http_get_billing (ctx admin_context) (billing_url admin_context (Some ''@alice'')) =
      Inr example_billing"
    by (simp add: admin_context_def example_context_def)
  show ?thesis
    unfolding logout_preview_step [OF admin_target fresh answer] admin_billing_url
    by (simp add: admin_target empty_world_def)
qed

section \<open>The wrapper of every command\<close>

text \<open>
  Every command is registered as \<open>createAction handler\<close>, that is, inside \<open>handleAction\<close>:
  whatever the handler does, the command returns a string.
\<close>

lemma createAction_returns_string:
  "\<exists>message w'. createAction h_quote c cfg handler argv arg w = (Inr message, w')"
  by (simp add: createAction_def handleAction_def Let_def split: prod.splits)

lemma zh_unknown_error_not_empty: "zh_unknown_error \<noteq> []"
  by (simp add: zh_unknown_error_def)

text \<open>
  Claim C8 says that the returned string is the error's \<^verbatim>\<open>response.data.message\<close>
  whenever the error carries that field.  The test \<^verbatim>\<open>if (apiMessage)\<close> is false for the
  empty string: for an error whose message is empty the wrapper returns the generic
  message, which is not empty.
\<close>

theorem handleAction_empty_message_counterexample:
  "handleAction example_quote rejecting_action \<lparr>argv_session = None\<rparr> empty_world =
     (Inr zh_unknown_error, empty_world) \<and>
   zh_unknown_error \<noteq> []"
  by (simp add: handleAction_def rejecting_action_def zh_unknown_error_not_empty)

text \<open>
  Claim C8, amended: for every action, whatever it returns or throws, the wrapper returns
  a string \<open>pre @ body\<close> and never throws, and the state is the one the action left.
  \<open>body\<close> is the action's string when it returns; when it throws an error with a message
  that is not empty, \<open>body\<close> is that message; when it throws an error with an empty message
  or without one, \<open>body\<close> is the generic message.  \<open>pre\<close> is the quote marker of the
  session's \<open>messageId\<close> when the session has one that is not empty, and empty otherwise.
\<close>

theorem handleAction_normalizes:
  "\<exists>pre body.
     handleAction h_quote action argv w = (Inr (pre @ body), snd (action argv w)) \<and>
     (\<forall>m. fst (action argv w) = Inr m \<longrightarrow> body = m) \<and>
     (\<forall>m. fst (action argv w) = Inl (ApiError m) \<longrightarrow>
          body = (if m \<noteq> [] then m else zh_unknown_error)) \<and>
     (fst (action argv w) = Inl OtherError \<longrightarrow> body = zh_unknown_error) \<and>
     (\<forall>s i. argv_session argv = Some s \<and> messageId s = Some i \<longrightarrow>
          pre = (if i \<noteq> [] then h_quote i else [])) \<and>
     (argv_session argv = None \<or> (\<exists>s. argv_session argv = Some s \<and> messageId s = None) \<longrightarrow>
          pre = [])"
proof -
  define body where "body =
    (case fst (action argv w) of
       Inr m \<Rightarrow> m
     | Inl e \<Rightarrow>
         (case apiMessage_of e of
            Some apiMessage \<Rightarrow> if apiMessage \<noteq> [] then apiMessage else zh_unknown_error
          | None \<Rightarrow> zh_unknown_error))"
  define pre where "pre =
    (case argv_session argv of
       None \<Rightarrow> []
     | Some s \<Rightarrow>
         (case messageId s of
            None \<Rightarrow> []
          | Some i \<Rightarrow> if i \<noteq> [] then h_quote i else []))"
  have "handleAction h_quote action argv w = (Inr (pre @ body), snd (action argv w))"
    by (simp add: handleAction_def pre_def body_def Let_def split: prod.splits option.splits)
  moreover have "\<forall>m. fst (action argv w) = Inr m \<longrightarrow> body = m"
    by (simp add: body_def)
  moreover have "\<forall>m. fst (action argv w) = Inl (ApiError m) \<longrightarrow>
          body = (if m \<noteq> [] then m else zh_unknown_error)"
    by (simp add: body_def)
  moreover have "fst (action argv w) = Inl OtherError \<longrightarrow> body = zh_unknown_error"
    by (simp add: body_def)
  moreover have "\<forall>s i. argv_session argv = Some s \<and> messageId s = Some i \<longrightarrow>
          pre = (if i \<noteq> [] then h_quote i else [])"
    by (simp add: pre_def)
  moreover have
    "argv_session argv = None \<or> (\<exists>s. argv_session argv = Some s \<and> messageId s = None) \<longrightarrow>
          pre = []"
    by (auto simp: pre_def)
  ultimately show ?thesis by blast
qed

text \<open>
  The example member's confirmation when the service rejects the logout request with a
  message: the reply quotes the member's message and carries the service's message.
\<close>

theorem handleAction_normalizes_witness:
  "handleAction example_quote (\<lambda>argv. handleLogoutCmd 1700000030000 example_context None)
     \<lparr>argv_session = Some \<lparr>userId = ''10001'', messageId = Some ''m1''\<rparr>\<rparr> pending_world =
     (Inr (example_quote ''m1'' @ ''no open session''),
      snd (handleLogoutCmd 1700000030000 example_context None pending_world))"
proof -
  have pending: "confirming (kv pending_world (Some ''10001'')) 1700000030000"
    by (simp add: pending_world_def)
  have thrown: "fst (handleLogoutCmd 1700000030000 example_context None pending_world) =
      Inl (ApiError ''no open session'')"
    by (simp add: logout_confirm_step [OF example_target pending] example_logout_answer)
  from handleAction_normalizes [of example_quote
      "\<lambda>argv. handleLogoutCmd 1700000030000 example_context None"
      "\<lparr>argv_session = Some \<lparr>userId = ''10001'', messageId = Some ''m1''\<rparr>\<rparr>" pending_world]
  show ?thesis by (auto simp: thrown)
qed

end
